theory Spec2Isabelle
  imports Main "HOL-Library.Word"
begin

unbundle bit_operations_syntax

section \<open>The PCIe end-point register driver (xlnx_pcie_platform_drv.c)\<close>

text \<open>
  A shallow embedding of the character-device driver. The mapped register block is a
  function from byte offsets to 32-bit words; \<open>reg_read\<close> and \<open>reg_write\<close> are the only
  accesses to it. Every effect of the driver that an ordering property can speak about
  (register accesses, coherent-buffer allocation and release, user copies, completions)
  is logged, oldest first, in the ghost field \<open>trace\<close>.
\<close>

type_synonym u32 = "32 word"
type_synonym u64 = "64 word"

subsection \<open>Register offsets and constants\<close>

definition PCIEP_READ_BUFFER_READY :: u32 where "PCIEP_READ_BUFFER_READY = 0x00"
definition PCIEP_READ_BUFFER_ADDR :: u32 where "PCIEP_READ_BUFFER_ADDR = 0x04"
definition PCIEP_READ_BUFFER_OFFSET :: u32 where "PCIEP_READ_BUFFER_OFFSET = 0x08"
definition PCIEP_READ_BUFFER_SIZE :: u32 where "PCIEP_READ_BUFFER_SIZE = 0x0c"
definition PCIEP_WRITE_BUFFER_READY :: u32 where "PCIEP_WRITE_BUFFER_READY = 0x10"
definition PCIEP_WRITE_BUFFER_ADDR :: u32 where "PCIEP_WRITE_BUFFER_ADDR = 0x14"
definition PCIEP_WRITE_BUFFER_OFFSET :: u32 where "PCIEP_WRITE_BUFFER_OFFSET = 0x18"
definition PCIEP_WRITE_BUFFER_SIZE :: u32 where "PCIEP_WRITE_BUFFER_SIZE = 0x1c"
definition PCIEP_READ_TRANSFER_DONE :: u32 where "PCIEP_READ_TRANSFER_DONE = 0x20"
definition PCIEP_WRITE_TRANSFER_DONE :: u32 where "PCIEP_WRITE_TRANSFER_DONE = 0x24"

definition PCIRC_READ_FILE_LENGTH :: u32 where "PCIRC_READ_FILE_LENGTH = 0x40"
definition PCIRC_READ_BUFFER_TRANSFER_DONE :: u32 where "PCIRC_READ_BUFFER_TRANSFER_DONE = 0x44"
definition PCIRC_ENC_PARAMS_1 :: u32 where "PCIRC_ENC_PARAMS_1 = 0x4c"
definition PCIRC_ENC_PARAMS_2 :: u32 where "PCIRC_ENC_PARAMS_2 = 0x50"
definition PCIRC_RAW_RESOLUTION :: u32 where "PCIRC_RAW_RESOLUTION = 0x54"
definition PCIRC_USECASE_MODE :: u32 where "PCIRC_USECASE_MODE = 0x58"
definition PCIRC_ENC_PARAMS_3 :: u32 where "PCIRC_ENC_PARAMS_3 = 0x5c"
definition PCIRC_ENC_PARAMS_4 :: u32 where "PCIRC_ENC_PARAMS_4 = 0x60"
definition PCIRC_ENC_PARAMS_5 :: u32 where "PCIRC_ENC_PARAMS_5 = 0x64"
definition PCIRC_READ_BUFFER_TRANSFER_DONE_INTR :: u32 where
  "PCIRC_READ_BUFFER_TRANSFER_DONE_INTR = 0x68"
definition PCIRC_WRITE_BUFFER_TRANSFER_DONE_INTR :: u32 where
  "PCIRC_WRITE_BUFFER_TRANSFER_DONE_INTR = 0x6c"
definition PCIRC_HOST_DONE_INTR :: u32 where "PCIRC_HOST_DONE_INTR = 0x70"

definition PCIEP_CLR_REG :: u32 where "PCIEP_CLR_REG = 0x0"
definition SET_BUFFER_RDY :: u32 where "SET_BUFFER_RDY = 0x1"

definition GET_FILE_LENGTH :: u32 where "GET_FILE_LENGTH = 0x0"
definition GET_ENC_PARAMS :: u32 where "GET_ENC_PARAMS = 0x1"
definition SET_READ_OFFSET :: u32 where "SET_READ_OFFSET = 0x2"
definition SET_WRITE_OFFSET :: u32 where "SET_WRITE_OFFSET = 0x3"
definition SET_READ_TRANSFER_DONE :: u32 where "SET_READ_TRANSFER_DONE = 0x5"
definition CLR_READ_TRANSFER_DONE :: u32 where "CLR_READ_TRANSFER_DONE = 0x6"
definition SET_WRITE_TRANSFER_DONE :: u32 where "SET_WRITE_TRANSFER_DONE = 0x7"
definition CLR_WRITE_TRANSFER_DONE :: u32 where "CLR_WRITE_TRANSFER_DONE = 0x8"
definition GET_RESOLUTION :: u32 where "GET_RESOLUTION = 0x9"
definition GET_MODE :: u32 where "GET_MODE = 0xa"
definition GET_FPS :: u32 where "GET_FPS = 0xb"
definition GET_FORMAT :: u32 where "GET_FORMAT = 0xc"

definition WIDTH_SHIFT :: nat where "WIDTH_SHIFT = 0x0"
definition WIDTH_MASK :: u32 where "WIDTH_MASK = 0xFFFF"
definition HEIGHT_SHIFT :: nat where "HEIGHT_SHIFT = 16"
definition HEIGHT_MASK :: u32 where "HEIGHT_MASK = 0xFFFF"
definition USE_CASE_MODE_SHIFT :: nat where "USE_CASE_MODE_SHIFT = 0x0"
definition USE_CASE_MODE_MASK :: u32 where "USE_CASE_MODE_MASK = 0x3"
definition FPS_SHIFT :: nat where "FPS_SHIFT = 0x5"
definition FPS_MASK :: u32 where "FPS_MASK = 0x3FF"
definition FORMAT_SHIFT :: nat where "FORMAT_SHIFT = 0x2"
definition FORMAT_MASK :: u32 where "FORMAT_MASK = 0x7"

definition L2CACHE_SHIFT :: nat where "L2CACHE_SHIFT = 0x0"
definition L2CACHE_MASK :: u32 where "L2CACHE_MASK = 0x1"
definition LOW_BANDWIDTH_SHIFT :: nat where "LOW_BANDWIDTH_SHIFT = 0x1"
definition LOW_BANDWIDTH_MASK :: u32 where "LOW_BANDWIDTH_MASK = 0x1"
definition FILLER_DATA_SHIFT :: nat where "FILLER_DATA_SHIFT = 0x2"
definition FILLER_DATA_MASK :: u32 where "FILLER_DATA_MASK = 0x1"
definition BITRATE_SHIFT :: nat where "BITRATE_SHIFT = 0x4"
definition BITRATE_MASK :: u32 where "BITRATE_MASK = 0xFFFF"
definition GOP_LENGTH_SHIFT :: nat where "GOP_LENGTH_SHIFT = 20"
definition GOP_LENGTH_MASK :: u32 where "GOP_LENGTH_MASK = 0x3FF"
definition MAX_PICTURE_SIZE_SHIFT :: nat where "MAX_PICTURE_SIZE_SHIFT = 0x1E"
definition MAX_PICTURE_SIZE_MASK :: u32 where "MAX_PICTURE_SIZE_MASK = 0x1"

definition B_FRAME_SHIFT :: nat where "B_FRAME_SHIFT = 0x0"
definition B_FRAME_MASK :: u64 where "B_FRAME_MASK = 0x3"
definition SLICE_SHIFT :: nat where "SLICE_SHIFT = 0x3"
definition SLICE_MASK :: u64 where "SLICE_MASK = 0x3F"
definition QP_MODE_SHIFT :: nat where "QP_MODE_SHIFT = 0x9"
definition QP_MODE_MASK :: u64 where "QP_MODE_MASK = 0x3"
definition RC_MODE_SHIFT :: nat where "RC_MODE_SHIFT = 0xb"
definition RC_MODE_MASK :: u64 where "RC_MODE_MASK = 0x3"
definition ENC_TYPE_SHIFT :: nat where "ENC_TYPE_SHIFT = 0xd"
definition ENC_TYPE_MASK :: u64 where "ENC_TYPE_MASK = 0x3"
definition GOP_MODE_SHIFT :: nat where "GOP_MODE_SHIFT = 0xf"
definition GOP_MODE_MASK :: u64 where "GOP_MODE_MASK = 0x7"
definition PROFILE_SHIFT :: nat where "PROFILE_SHIFT = 0x12"
definition PROFILE_MASK :: u64 where "PROFILE_MASK = 0x3"
definition MIN_QP_SHIFT :: nat where "MIN_QP_SHIFT = 0x14"
definition MIN_QP_MASK :: u64 where "MIN_QP_MASK = 0x3F"
definition MAX_QP_SHIFT :: nat where "MAX_QP_SHIFT = 0x1A"
definition MAX_QP_MASK :: u64 where "MAX_QP_MASK = 0x3F"
definition CPB_SIZE_SHIFT :: nat where "CPB_SIZE_SHIFT = 0x0"
definition CPB_SIZE_MASK :: u64 where "CPB_SIZE_MASK = 0xFFFF"
definition INITIAL_DELAY_SHIFT :: nat where "INITIAL_DELAY_SHIFT = 0x0"
definition INITIAL_DELAY_MASK :: u64 where "INITIAL_DELAY_MASK = 0xFFFF"
definition PERIODICITY_IDR_SHIFT :: nat where "PERIODICITY_IDR_SHIFT = 0x0"
definition PERIODICITY_IDR_MASK :: u64 where "PERIODICITY_IDR_MASK = 0xFFFF"

text \<open>The two high-offset masks are \<open>unsigned int\<close> constants; where the source combines
  them with a 64-bit operand they are zero-extended (\<open>ucast\<close>).\<close>

definition READ_BUF_HIGH_OFFSET :: u32 where "READ_BUF_HIGH_OFFSET = 0xFFFF0000"
definition WRITE_BUF_HIGH_OFFSET :: u32 where "WRITE_BUF_HIGH_OFFSET = 0xFFFF0000"

definition EINVAL :: int where "EINVAL = 22"
definition ENOMEM :: int where "ENOMEM = 12"
definition ENOTTY :: int where "ENOTTY = 25"

lemmas reg_offsets =
  PCIEP_READ_BUFFER_READY_def PCIEP_READ_BUFFER_ADDR_def PCIEP_READ_BUFFER_OFFSET_def
  PCIEP_READ_BUFFER_SIZE_def PCIEP_WRITE_BUFFER_READY_def PCIEP_WRITE_BUFFER_ADDR_def
  PCIEP_WRITE_BUFFER_OFFSET_def PCIEP_WRITE_BUFFER_SIZE_def PCIEP_READ_TRANSFER_DONE_def
  PCIEP_WRITE_TRANSFER_DONE_def PCIRC_READ_FILE_LENGTH_def
  PCIRC_READ_BUFFER_TRANSFER_DONE_def PCIRC_ENC_PARAMS_1_def PCIRC_ENC_PARAMS_2_def
  PCIRC_RAW_RESOLUTION_def PCIRC_USECASE_MODE_def PCIRC_ENC_PARAMS_3_def
  PCIRC_ENC_PARAMS_4_def PCIRC_ENC_PARAMS_5_def PCIRC_READ_BUFFER_TRANSFER_DONE_INTR_def
  PCIRC_WRITE_BUFFER_TRANSFER_DONE_INTR_def PCIRC_HOST_DONE_INTR_def

lemmas ioctl_cmds =
  GET_FILE_LENGTH_def GET_ENC_PARAMS_def SET_READ_OFFSET_def SET_WRITE_OFFSET_def
  SET_READ_TRANSFER_DONE_def CLR_READ_TRANSFER_DONE_def SET_WRITE_TRANSFER_DONE_def
  CLR_WRITE_TRANSFER_DONE_def GET_RESOLUTION_def GET_MODE_def GET_FPS_def GET_FORMAT_def

subsection \<open>Driver data and the effect log\<close>

datatype direction = Rd | Wr

text \<open>
  \<open>DmaAlloc sz outcome\<close>: a call of \<open>dma_alloc_coherent\<close>; the outcome is the pair
  (kernel virtual address, device-visible address), or \<open>None\<close> when the allocation fails.
  \<open>DmaFree sz virt phys\<close>: a call of \<open>dma_free_coherent\<close> with these arguments.
  \<open>CopyToUser n\<close>, \<open>CopyFromUser n\<close>: a user copy that left \<open>n\<close> bytes uncopied.
\<close>

datatype event =
    RegRead u32 u32
  | RegWrite u32 u32
  | DmaAlloc u64 "(u64 \<times> u64) option"
  | DmaFree u64 "u64 option" u64
  | CopyToUser u64
  | CopyFromUser u64
  | Complete direction

text \<open>
  The fields of \<open>struct pciep_driver_data\<close> that the file operations and the interrupt
  handlers use. \<open>regs\<close> stands for the contents of the block \<open>this->regs\<close> points to; a
  \<open>struct completion\<close> is its \<open>done\<close> counter; a null \<open>void *\<close> is \<open>None\<close>.
\<close>

record pciep_driver_data =
  regs :: "u32 \<Rightarrow> u32"
  is_open :: bool
  read_complete :: nat
  write_complete :: nat
  read_virt_addr :: "u64 option"
  write_virt_addr :: "u64 option"
  read_phys_addr :: u64
  write_phys_addr :: u64
  trace :: "event list"

record enc_params =
  enable_l2Cache :: bool
  low_bandwidth :: bool
  filler_data :: bool
  max_picture_size :: bool
  bitrate :: u32
  gop_len :: u32
  b_frame :: u32
  slice :: u32
  qp_mode :: u32
  rc_mode :: u32
  enc_type :: u32
  gop_mode :: u32
  profile :: u32
  min_qp :: u32
  max_qp :: u32
  cpb_size :: u32
  initial_delay :: u32
  periodicity_idr :: u32

record resolution =
  width :: u32
  height :: u32

definition log_event :: "event \<Rightarrow> pciep_driver_data \<Rightarrow> pciep_driver_data" where
  "log_event e this = this\<lparr>trace := trace this @ [e]\<rparr>"

definition reg_read :: "pciep_driver_data \<Rightarrow> u32 \<Rightarrow> u32 \<times> pciep_driver_data" where
  "reg_read this reg = (regs this reg, log_event (RegRead reg (regs this reg)) this)"

definition reg_write :: "pciep_driver_data \<Rightarrow> u32 \<Rightarrow> u32 \<Rightarrow> pciep_driver_data" where
  "reg_write this reg val = log_event (RegWrite reg val) (this\<lparr>regs := (regs this)(reg := val)\<rparr>)"

text \<open>The events a call appended to the log: those of \<open>s'\<close> beyond the log of \<open>s\<close>.\<close>

definition new_events :: "pciep_driver_data \<Rightarrow> pciep_driver_data \<Rightarrow> event list" where
  "new_events s s' = drop (length (trace s)) (trace s')"

subsection \<open>Reset, open and release\<close>

text \<open>\<open>pcie_reset_all\<close>: a null \<open>this\<close> is \<open>None\<close> and gives \<open>-EINVAL\<close>.\<close>

definition pcie_reset_all :: "pciep_driver_data option \<Rightarrow> int \<times> pciep_driver_data option" where
  "pcie_reset_all this_opt =
     (case this_opt of
        Some this \<Rightarrow>
          (let s1 = reg_write this PCIEP_READ_TRANSFER_DONE PCIEP_CLR_REG;
               s2 = reg_write s1 PCIEP_WRITE_TRANSFER_DONE PCIEP_CLR_REG;
               s3 = reg_write s2 PCIEP_READ_BUFFER_OFFSET PCIEP_CLR_REG;
               s4 = reg_write s3 PCIEP_READ_BUFFER_SIZE PCIEP_CLR_REG;
               s5 = reg_write s4 PCIEP_WRITE_BUFFER_SIZE PCIEP_CLR_REG;
               s6 = reg_write s5 PCIEP_READ_BUFFER_READY PCIEP_CLR_REG;
               s7 = reg_write s6 PCIEP_WRITE_BUFFER_READY PCIEP_CLR_REG
           in (0, Some s7))
      | None \<Rightarrow> (- EINVAL, None))"

text \<open>\<open>pciep_driver_file_open\<close>: \<open>container_of\<close> never yields a null pointer, so the reset
  always runs on the driver data; its status is discarded and 0 is returned.\<close>

definition pciep_driver_file_open :: "pciep_driver_data \<Rightarrow> int \<times> pciep_driver_data" where
  "pciep_driver_file_open this0 =
     (let status = 0;
          this = this0\<lparr>is_open := True\<rparr>
      in case snd (pcie_reset_all (Some this)) of
           Some s \<Rightarrow> (status, s)
         | None \<Rightarrow> (status, this))"

definition pciep_driver_file_release :: "pciep_driver_data \<Rightarrow> int \<times> pciep_driver_data" where
  "pciep_driver_file_release this0 =
     (let this = this0\<lparr>is_open := False\<rparr>;
          s1 = reg_write this PCIEP_READ_BUFFER_OFFSET PCIEP_CLR_REG;
          (value, s2) = reg_read s1 PCIEP_READ_BUFFER_READY;
          value = value AND NOT READ_BUF_HIGH_OFFSET;
          s3 = reg_write s2 PCIEP_READ_BUFFER_READY value;
          s4 = reg_write s3 PCIEP_READ_BUFFER_SIZE PCIEP_CLR_REG;
          s5 = reg_write s4 PCIEP_WRITE_BUFFER_SIZE PCIEP_CLR_REG
      in (0, s5))"

subsection \<open>User copies\<close>

text \<open>
  User memory is outside the driver. A user copy is given by its outcome: the number of
  bytes it could not copy, which the source stores in an \<open>int\<close> (\<open>ret\<close>).
\<close>

definition copy_to_user :: "u64 \<Rightarrow> pciep_driver_data \<Rightarrow> int \<times> pciep_driver_data" where
  "copy_to_user not_copied this =
     (sint (ucast not_copied :: u32), log_event (CopyToUser not_copied) this)"

definition copy_from_user :: "u64 \<Rightarrow> pciep_driver_data \<Rightarrow> int \<times> pciep_driver_data" where
  "copy_from_user not_copied this =
     (sint (ucast not_copied :: u32), log_event (CopyFromUser not_copied) this)"

subsection \<open>Control requests\<close>

text \<open>What a get-request hands to \<open>copy_to_user\<close>.\<close>

datatype ioctl_out =
    OutSize u64
  | OutParams enc_params
  | OutRes resolution
  | OutValue u32

text \<open>
  \<open>pciep_driver_file_ioctl this cmd uval not_copied\<close>: \<open>uval\<close> is the content of the local
  \<open>value1\<close> after \<open>copy_from_user\<close> (the 64-bit word the caller passed, when the copy
  succeeds), \<open>not_copied\<close> the outcome of the request's user copy. The result is the
  return value, the object handed to \<open>copy_to_user\<close> (if any), and the new driver data.
\<close>

definition pciep_driver_file_ioctl ::
  "pciep_driver_data \<Rightarrow> u32 \<Rightarrow> u64 \<Rightarrow> u64 \<Rightarrow> (int \<times> ioctl_out option) \<times> pciep_driver_data" where
  "pciep_driver_file_ioctl this cmd uval not_copied =
    (if cmd = GET_FILE_LENGTH then
       (let (value, s1) = reg_read this PCIRC_READ_FILE_LENGTH;
            (r, s2) = reg_read s1 (PCIRC_READ_FILE_LENGTH - 4);
            value1 = (ucast r :: u64);
            fsize = (ucast value :: u64) OR push_bit 32 value1;
            (ret, s3) = copy_to_user not_copied s2
        in ((ret, Some (OutSize fsize)), s3))
     else if cmd = GET_ENC_PARAMS then
       (let (value, s1) = reg_read this PCIRC_ENC_PARAMS_1;
            (r1, s2) = reg_read s1 PCIRC_ENC_PARAMS_2;
            value1 = (ucast r1 :: u64);
            (r2, s3) = reg_read s2 PCIRC_ENC_PARAMS_3;
            value2 = (ucast r2 :: u64);
            (r3, s4) = reg_read s3 PCIRC_ENC_PARAMS_4;
            value3 = (ucast r3 :: u64);
            (r4, s5) = reg_read s4 PCIRC_ENC_PARAMS_5;
            value4 = (ucast r4 :: u64);
            params = \<lparr>
              enable_l2Cache = (drop_bit L2CACHE_SHIFT value AND L2CACHE_MASK \<noteq> 0),
              low_bandwidth = (drop_bit LOW_BANDWIDTH_SHIFT value AND LOW_BANDWIDTH_MASK \<noteq> 0),
              filler_data = (drop_bit FILLER_DATA_SHIFT value AND FILLER_DATA_MASK \<noteq> 0),
              max_picture_size =
                (drop_bit MAX_PICTURE_SIZE_SHIFT value AND MAX_PICTURE_SIZE_MASK \<noteq> 0),
              bitrate = drop_bit BITRATE_SHIFT value AND BITRATE_MASK,
              gop_len = drop_bit GOP_LENGTH_SHIFT value AND GOP_LENGTH_MASK,
              b_frame = ucast (drop_bit B_FRAME_SHIFT value1 AND B_FRAME_MASK),
              slice = ucast (drop_bit SLICE_SHIFT value1 AND SLICE_MASK),
              qp_mode = ucast (drop_bit QP_MODE_SHIFT value1 AND QP_MODE_MASK),
              rc_mode = ucast (drop_bit RC_MODE_SHIFT value1 AND RC_MODE_MASK),
              enc_type = ucast (drop_bit ENC_TYPE_SHIFT value1 AND ENC_TYPE_MASK),
              gop_mode = ucast (drop_bit GOP_MODE_SHIFT value1 AND GOP_MODE_MASK),
              profile = ucast (drop_bit PROFILE_SHIFT value1 AND PROFILE_MASK),
              min_qp = ucast (drop_bit MIN_QP_SHIFT value1 AND MIN_QP_MASK),
              max_qp = ucast (drop_bit MAX_QP_SHIFT value1 AND MAX_QP_MASK),
              cpb_size = ucast (drop_bit CPB_SIZE_SHIFT value2 AND CPB_SIZE_MASK),
              initial_delay = ucast (drop_bit INITIAL_DELAY_SHIFT value3 AND INITIAL_DELAY_MASK),
              periodicity_idr =
                ucast (drop_bit PERIODICITY_IDR_SHIFT value4 AND PERIODICITY_IDR_MASK) \<rparr>;
            (ret, s6) = copy_to_user not_copied s5
        in ((ret, Some (OutParams params)), s6))
     else if cmd = GET_RESOLUTION then
       (let (value, s1) = reg_read this PCIRC_RAW_RESOLUTION;
            res = \<lparr> width = drop_bit WIDTH_SHIFT value AND WIDTH_MASK,
                    height = drop_bit HEIGHT_SHIFT value AND HEIGHT_MASK \<rparr>;
            (ret, s2) = copy_to_user not_copied s1
        in ((ret, Some (OutRes res)), s2))
     else if cmd = GET_MODE then
       (let (value, s1) = reg_read this PCIRC_USECASE_MODE;
            value = drop_bit USE_CASE_MODE_SHIFT value AND USE_CASE_MODE_MASK;
            (ret, s2) = copy_to_user not_copied s1
        in ((ret, Some (OutValue value)), s2))
     else if cmd = SET_READ_OFFSET then
       (let (ret, s1) = copy_from_user not_copied this;
            value1 = uval;
            s2 = reg_write s1 PCIEP_READ_BUFFER_OFFSET (ucast value1);
            (value, s3) = reg_read s2 PCIEP_READ_BUFFER_READY;
            value = value AND NOT READ_BUF_HIGH_OFFSET;
            value = ucast ((ucast value :: u64) OR (drop_bit 16 value1 AND ucast READ_BUF_HIGH_OFFSET));
            s4 = reg_write s3 PCIEP_READ_BUFFER_READY value
        in ((ret, None), s4))
     else if cmd = SET_WRITE_OFFSET then
       (let (ret, s1) = copy_from_user not_copied this;
            value1 = uval;
            s2 = reg_write s1 PCIEP_WRITE_BUFFER_OFFSET (ucast value1);
            (value, s3) = reg_read s2 PCIEP_WRITE_BUFFER_READY;
            value = value AND NOT WRITE_BUF_HIGH_OFFSET;
            value = ucast ((ucast value :: u64) OR (drop_bit 16 value1 AND ucast WRITE_BUF_HIGH_OFFSET));
            s4 = reg_write s3 PCIEP_WRITE_BUFFER_READY value
        in ((ret, None), s4))
     else if cmd = SET_READ_TRANSFER_DONE then
       ((0, None), reg_write this PCIEP_READ_TRANSFER_DONE 0xef)
     else if cmd = SET_WRITE_TRANSFER_DONE then
       ((0, None), reg_write this PCIEP_WRITE_TRANSFER_DONE 0xef)
     else if cmd = CLR_READ_TRANSFER_DONE then
       ((0, None), reg_write this PCIEP_READ_TRANSFER_DONE 0x00)
     else if cmd = CLR_WRITE_TRANSFER_DONE then
       ((0, None), reg_write this PCIEP_WRITE_TRANSFER_DONE 0x00)
     else if cmd = GET_FPS then
       (let (value, s1) = reg_read this PCIRC_USECASE_MODE;
            value = drop_bit FPS_SHIFT value AND FPS_MASK;
            (ret, s2) = copy_to_user not_copied s1
        in ((ret, Some (OutValue value)), s2))
     else if cmd = GET_FORMAT then
       (let (value, s1) = reg_read this PCIRC_USECASE_MODE;
            value = drop_bit FORMAT_SHIFT value AND FORMAT_MASK;
            (ret, s2) = copy_to_user not_copied s1
        in ((ret, Some (OutValue value)), s2))
     else ((- ENOTTY, None), this))"

subsection \<open>Positional seek\<close>

text \<open>\<open>offset\<close> is a signed 64-bit \<open>loff_t\<close>: \<open>>>\<close> on it is the arithmetic shift. The
  return value is the offset itself.\<close>

definition pciep_driver_file_lseek :: "pciep_driver_data \<Rightarrow> u64 \<Rightarrow> int \<times> pciep_driver_data" where
  "pciep_driver_file_lseek this offset =
     (let s1 = reg_write this PCIEP_READ_BUFFER_OFFSET (ucast offset);
          (value, s2) = reg_read s1 PCIEP_READ_BUFFER_READY;
          value = value AND NOT READ_BUF_HIGH_OFFSET;
          value = ucast ((ucast value :: u64) OR
                         (signed_drop_bit 16 offset AND ucast READ_BUF_HIGH_OFFSET));
          s3 = reg_write s2 PCIEP_READ_BUFFER_READY value
      in (sint offset, s3))"

subsection \<open>Completions and interrupt handlers\<close>

definition complete :: "direction \<Rightarrow> pciep_driver_data \<Rightarrow> pciep_driver_data" where
  "complete d this =
     log_event (Complete d)
       (case d of
          Rd \<Rightarrow> this\<lparr>read_complete := Suc (read_complete this)\<rparr>
        | Wr \<Rightarrow> this\<lparr>write_complete := Suc (write_complete this)\<rparr>)"

definition xilinx_pciep_read_irq_handler :: "pciep_driver_data \<Rightarrow> pciep_driver_data" where
  "xilinx_pciep_read_irq_handler driver_data =
     (let (value, s1) = reg_read driver_data PCIEP_READ_BUFFER_READY;
          value = value AND NOT SET_BUFFER_RDY;
          s2 = reg_write s1 PCIEP_READ_BUFFER_READY value;
          s3 = complete Rd s2;
          (ack, s4) = reg_read s3 PCIRC_READ_BUFFER_TRANSFER_DONE_INTR
      in s4)"

definition xilinx_pciep_write_irq_handler :: "pciep_driver_data \<Rightarrow> pciep_driver_data" where
  "xilinx_pciep_write_irq_handler driver_data =
     (let (value, s1) = reg_read driver_data PCIEP_WRITE_BUFFER_READY;
          value = value AND NOT SET_BUFFER_RDY;
          s2 = reg_write s1 PCIEP_WRITE_BUFFER_READY value;
          s3 = complete Wr s2;
          (ack, s4) = reg_read s3 PCIRC_WRITE_BUFFER_TRANSFER_DONE_INTR
      in s4)"

definition xilinx_pciep_host_done_irq_handler :: "pciep_driver_data \<Rightarrow> pciep_driver_data" where
  "xilinx_pciep_host_done_irq_handler driver_data =
     (let (ack, s1) = reg_read driver_data PCIRC_HOST_DONE_INTR;
          s2 = reg_write s1 PCIEP_READ_TRANSFER_DONE PCIEP_CLR_REG;
          s3 = reg_write s2 PCIEP_WRITE_TRANSFER_DONE PCIEP_CLR_REG
      in s3)"

text \<open>The three interrupt lines requested in \<open>pciep_platform_driver_probe\<close>, each bound
  to its handler.\<close>

datatype irq = RdIrq | WrIrq | HostDoneIrq

fun deliver_irq :: "irq \<Rightarrow> pciep_driver_data \<Rightarrow> pciep_driver_data" where
  "deliver_irq RdIrq s = xilinx_pciep_read_irq_handler s"
| "deliver_irq WrIrq s = xilinx_pciep_write_irq_handler s"
| "deliver_irq HostDoneIrq s = xilinx_pciep_host_done_irq_handler s"

definition completion_done :: "direction \<Rightarrow> pciep_driver_data \<Rightarrow> nat" where
  "completion_done d this = (case d of Rd \<Rightarrow> read_complete this | Wr \<Rightarrow> write_complete this)"

definition take_completion :: "direction \<Rightarrow> pciep_driver_data \<Rightarrow> pciep_driver_data" where
  "take_completion d this =
     (case d of
        Rd \<Rightarrow> this\<lparr>read_complete := read_complete this - 1\<rparr>
      | Wr \<Rightarrow> this\<lparr>write_complete := write_complete this - 1\<rparr>)"

text \<open>
  \<open>wait_for_completion d irqs s\<close>: the caller sleeps until the completion's counter is
  positive and then takes one unit of it. \<open>irqs\<close> is the sequence of interrupts that fire
  while the caller sleeps, each handled to its end before the next. The result is
  \<open>(True, s')\<close> when the caller is woken, and \<open>(False, s')\<close> when the interrupts are used
  up with the counter still zero: the caller sleeps forever (the source has no timeout).
\<close>

fun wait_for_completion ::
  "direction \<Rightarrow> irq list \<Rightarrow> pciep_driver_data \<Rightarrow> bool \<times> pciep_driver_data" where
  "wait_for_completion d [] s =
     (if 0 < completion_done d s then (True, take_completion d s) else (False, s))"
| "wait_for_completion d (i # irqs) s =
     (if 0 < completion_done d s then (True, take_completion d s)
      else wait_for_completion d irqs (deliver_irq i s))"

subsection \<open>Coherent buffers\<close>

text \<open>The allocator is outside the driver; \<open>outcome\<close> is what it answers: the buffer's
  kernel virtual and device-visible addresses, or \<open>None\<close> for a null or error pointer.\<close>

definition dma_alloc_coherent ::
  "u64 \<Rightarrow> (u64 \<times> u64) option \<Rightarrow> pciep_driver_data \<Rightarrow> pciep_driver_data" where
  "dma_alloc_coherent sz outcome this = log_event (DmaAlloc sz outcome) this"

definition dma_free_coherent ::
  "u64 \<Rightarrow> u64 option \<Rightarrow> u64 \<Rightarrow> pciep_driver_data \<Rightarrow> pciep_driver_data" where
  "dma_free_coherent sz virt phys this = log_event (DmaFree sz virt phys) this"

subsection \<open>Data transfers\<close>

text \<open>
  \<open>pciep_driver_file_read this count outcome not_copied irqs\<close>: \<open>count\<close> is an unsigned
  \<open>size_t\<close>; \<open>outcome\<close> is the allocator's answer, \<open>not_copied\<close> the outcome of the user
  copy, \<open>irqs\<close> the interrupts that fire while the call sleeps. The return value is
  \<open>None\<close> when the call never returns. The device address and the count are truncated to
  the 32 bits of a register.
\<close>

definition pciep_driver_file_read ::
  "pciep_driver_data \<Rightarrow> u64 \<Rightarrow> (u64 \<times> u64) option \<Rightarrow> u64 \<Rightarrow> irq list
     \<Rightarrow> int option \<times> pciep_driver_data" where
  "pciep_driver_file_read this count outcome not_copied irqs =
     (if count \<le> 0 then (Some (- EINVAL), this)
      else
        let s0 = dma_alloc_coherent count outcome this;
            s1 = (case outcome of
                    Some (virt, phys) \<Rightarrow> s0\<lparr>read_virt_addr := Some virt, read_phys_addr := phys\<rparr>
                  | None \<Rightarrow> s0\<lparr>read_virt_addr := None\<rparr>)
        in if read_virt_addr s1 = None then (Some (- ENOMEM), s1\<lparr>read_virt_addr := None\<rparr>)
           else
             let s2 = reg_write s1 PCIEP_READ_BUFFER_ADDR (ucast (read_phys_addr s1));
                 s3 = reg_write s2 PCIEP_READ_BUFFER_SIZE (ucast count);
                 (value, s4) = reg_read s3 PCIEP_READ_BUFFER_READY;
                 value = value OR SET_BUFFER_RDY;
                 s5 = reg_write s4 PCIEP_READ_BUFFER_READY value
             in case wait_for_completion Rd irqs s5 of
                  (False, s6) \<Rightarrow> (None, s6)
                | (True, s6) \<Rightarrow>
                    let (ret, s7) = copy_to_user not_copied s6;
                        s8 = dma_free_coherent count (read_virt_addr s7) (read_phys_addr s7) s7
                    in (Some ret, s8))"

definition pciep_driver_file_write ::
  "pciep_driver_data \<Rightarrow> u64 \<Rightarrow> (u64 \<times> u64) option \<Rightarrow> u64 \<Rightarrow> irq list
     \<Rightarrow> int option \<times> pciep_driver_data" where
  "pciep_driver_file_write this count outcome not_copied irqs =
     (if count \<le> 0 then (Some (- EINVAL), this)
      else
        let s0 = dma_alloc_coherent count outcome this;
            s1 = (case outcome of
                    Some (virt, phys) \<Rightarrow> s0\<lparr>write_virt_addr := Some virt, write_phys_addr := phys\<rparr>
                  | None \<Rightarrow> s0\<lparr>write_virt_addr := None\<rparr>)
        in if write_virt_addr s1 = None then (Some (- ENOMEM), s1\<lparr>write_virt_addr := None\<rparr>)
           else
             let (ret, s2) = copy_from_user not_copied s1
             in if ret \<noteq> 0 then
                  (Some ret, dma_free_coherent count (write_virt_addr s2) (write_phys_addr s2) s2)
                else
                  let s3 = reg_write s2 PCIEP_WRITE_BUFFER_ADDR (ucast (write_phys_addr s2));
                      s4 = reg_write s3 PCIEP_WRITE_BUFFER_SIZE (ucast count);
                      (value, s5) = reg_read s4 PCIEP_WRITE_BUFFER_READY;
                      value = value OR SET_BUFFER_RDY;
                      s6 = reg_write s5 PCIEP_WRITE_BUFFER_READY value
                  in case wait_for_completion Wr irqs s6 of
                       (False, s7) \<Rightarrow> (None, s7)
                     | (True, s7) \<Rightarrow>
                         (Some ret,
                          dma_free_coherent count (write_virt_addr s7) (write_phys_addr s7) s7))"

subsection \<open>A device right after attach\<close>

text \<open>The driver data as \<open>pciep_driver_create\<close> leaves it (\<open>kzalloc\<close> zeroes every field,
  \<open>init_completion\<close> sets both counters to 0), over a register block that reads as zero.\<close>

definition zero_block :: "u32 \<Rightarrow> u32" where
  "zero_block reg = 0"

definition attached_device :: pciep_driver_data where
  "attached_device =
     \<lparr> regs = zero_block, is_open = False, read_complete = 0, write_complete = 0,
       read_virt_addr = None, write_virt_addr = None, read_phys_addr = 0,
       write_phys_addr = 0, trace = [] \<rparr>"

subsection \<open>Classifying logged effects\<close>

text \<open>\<open>sets_ready rdy e\<close>: the effect \<open>e\<close> writes a word with bit 0 (the ready flag) set to
  the register at offset \<open>rdy\<close>.\<close>

fun sets_ready :: "u32 \<Rightarrow> event \<Rightarrow> bool" where
  "sets_ready rdy (RegWrite r v) = (r = rdy \<and> bit v 0)"
| "sets_ready rdy (RegRead r v) = False"
| "sets_ready rdy (DmaAlloc sz outcome) = False"
| "sets_ready rdy (DmaFree sz virt phys) = False"
| "sets_ready rdy (CopyToUser n) = False"
| "sets_ready rdy (CopyFromUser n) = False"
| "sets_ready rdy (Complete d) = False"

fun is_dma :: "event \<Rightarrow> bool" where
  "is_dma (DmaAlloc sz outcome) = True"
| "is_dma (DmaFree sz virt phys) = True"
| "is_dma (RegWrite r v) = False"
| "is_dma (RegRead r v) = False"
| "is_dma (CopyToUser n) = False"
| "is_dma (CopyFromUser n) = False"
| "is_dma (Complete d) = False"

fun touches_reg :: "event \<Rightarrow> bool" where
  "touches_reg (RegWrite r v) = True"
| "touches_reg (RegRead r v) = True"
| "touches_reg (DmaAlloc sz outcome) = False"
| "touches_reg (DmaFree sz virt phys) = False"
| "touches_reg (CopyToUser n) = False"
| "touches_reg (CopyFromUser n) = False"
| "touches_reg (Complete d) = False"

section \<open>Verification\<close>

subsection \<open>Word facts\<close>

lemma high_half_mask: "(0xFFFF0000 :: 'a::len word) = push_bit 16 (mask 16)"
  by (simp add: mask_eq_exp_minus_1 push_bit_eq_mult)

lemma low_half_mask: "(0xFFFF :: 'a::len word) = mask 16"
  by (simp add: mask_eq_exp_minus_1)

lemma signed_shift_masked:
  "signed_drop_bit 16 (x :: u64) AND 0xFFFF0000 = drop_bit 16 x AND 0xFFFF0000"
  unfolding high_half_mask
  by (rule bit_word_eqI) (auto simp: bit_simps)

lemma packed_ready_word:
  "(ucast ((ucast (v AND NOT 0xFFFF0000) :: u64) OR (drop_bit 16 x AND 0xFFFF0000)) :: u32)
     = (v AND 0xFFFF) OR push_bit 16 (ucast (drop_bit 32 x AND 0xFFFF))"
  unfolding high_half_mask low_half_mask
  by (rule bit_word_eqI) (auto simp: bit_simps)

lemma packed_ready_as_masked_shift:
  "(ucast ((ucast (v AND NOT 0xFFFF0000) :: u64) OR (drop_bit 16 x AND 0xFFFF0000)) :: u32)
     = (v AND NOT 0xFFFF0000) OR (ucast (drop_bit 16 x) AND 0xFFFF0000)"
  unfolding high_half_mask low_half_mask
  by (rule bit_word_eqI) (auto simp: bit_simps)

lemma packed_high_bits:
  "drop_bit 16 ((v AND 0xFFFF) OR push_bit 16 (ucast (drop_bit 32 (x :: u64) AND 0xFFFF)) :: u32)
     = ucast (drop_bit 32 x AND 0xFFFF)"
  unfolding low_half_mask
  by (rule bit_word_eqI) (auto simp: bit_simps)

lemma packed_low_bits:
  "((v AND 0xFFFF) OR push_bit 16 (ucast (drop_bit 32 (x :: u64) AND 0xFFFF)) :: u32) AND 0xFFFF
     = v AND 0xFFFF"
  unfolding low_half_mask
  by (rule bit_word_eqI) (auto simp: bit_simps)

lemma packed_bit0:
  "bit ((v AND 0xFFFF) OR push_bit 16 (ucast (drop_bit 32 (x :: u64) AND 0xFFFF)) :: u32) 0
     = bit v 0"
  unfolding low_half_mask
  by (auto simp: bit_simps)

lemma clear_bit0: "bit ((v :: u32) AND NOT 1) n \<longleftrightarrow> bit v n \<and> n \<noteq> 0"
  by (auto simp: bit_simps dest: bit_imp_le_length)

lemma clear_bit0_minus2: "\<not> bit ((v :: u32) AND - 2) 0"
  using clear_bit0 [of v 0] by simp

lemma set_bit0: "bit ((v :: u32) OR 1) n \<longleftrightarrow> bit v n \<or> n = 0"
  by (auto simp: bit_simps)

lemmas step_defs = reg_read_def reg_write_def log_event_def complete_def copy_to_user_def
  copy_from_user_def dma_alloc_coherent_def dma_free_coherent_def

subsection \<open>Control requests\<close>

lemma set_read_offset_regs:
  "regs (snd (pciep_driver_file_ioctl this SET_READ_OFFSET v nc)) =
     (regs this)
       (PCIEP_READ_BUFFER_OFFSET := ucast v,
        PCIEP_READ_BUFFER_READY :=
          ucast ((ucast (regs this PCIEP_READ_BUFFER_READY AND NOT 0xFFFF0000) :: u64)
                 OR (drop_bit 16 v AND 0xFFFF0000)))"
  by (simp add: pciep_driver_file_ioctl_def ioctl_cmds step_defs Let_def reg_offsets
      READ_BUF_HIGH_OFFSET_def)

lemma set_read_offset_events:
  "new_events this (snd (pciep_driver_file_ioctl this SET_READ_OFFSET v nc)) =
     [CopyFromUser nc,
      RegWrite PCIEP_READ_BUFFER_OFFSET (ucast v),
      RegRead PCIEP_READ_BUFFER_READY (regs this PCIEP_READ_BUFFER_READY),
      RegWrite PCIEP_READ_BUFFER_READY
        (ucast ((ucast (regs this PCIEP_READ_BUFFER_READY AND NOT 0xFFFF0000) :: u64)
                OR (drop_bit 16 v AND 0xFFFF0000)))]"
  by (simp add: pciep_driver_file_ioctl_def ioctl_cmds step_defs Let_def reg_offsets
      READ_BUF_HIGH_OFFSET_def new_events_def)

lemma lseek_regs:
  "regs (snd (pciep_driver_file_lseek this v)) =
     (regs this)
       (PCIEP_READ_BUFFER_OFFSET := ucast v,
        PCIEP_READ_BUFFER_READY :=
          ucast ((ucast (regs this PCIEP_READ_BUFFER_READY AND NOT 0xFFFF0000) :: u64)
                 OR (drop_bit 16 v AND 0xFFFF0000)))"
  by (simp add: pciep_driver_file_lseek_def step_defs Let_def reg_offsets
      READ_BUF_HIGH_OFFSET_def signed_shift_masked)

lemma lseek_events:
  "new_events this (snd (pciep_driver_file_lseek this v)) =
     [RegWrite PCIEP_READ_BUFFER_OFFSET (ucast v),
      RegRead PCIEP_READ_BUFFER_READY (regs this PCIEP_READ_BUFFER_READY),
      RegWrite PCIEP_READ_BUFFER_READY
        (ucast ((ucast (regs this PCIEP_READ_BUFFER_READY AND NOT 0xFFFF0000) :: u64)
                OR (drop_bit 16 v AND 0xFFFF0000)))]"
  by (simp add: pciep_driver_file_lseek_def step_defs Let_def reg_offsets
      READ_BUF_HIGH_OFFSET_def signed_shift_masked new_events_def)

lemma ready_not_offset:
  "PCIEP_READ_BUFFER_READY \<noteq> PCIEP_READ_BUFFER_OFFSET"
  "PCIEP_READ_BUFFER_OFFSET \<noteq> PCIEP_READ_BUFFER_READY"
  by (simp_all add: reg_offsets)

text \<open>
  C1, as the code has it: get-file-length reads the word at offset 0x40 first and then the
  word at offset 0x3C (0x40 - 4, not 0x44), and hands the caller the 64-bit value
  low | (high << 32), the word at 0x40 being the low half and the word at 0x3C the high half.
\<close>

theorem get_file_length_words:
  "snd (fst (pciep_driver_file_ioctl this GET_FILE_LENGTH v nc)) =
     Some (OutSize (ucast (regs this 0x40) OR push_bit 32 (ucast (regs this 0x3C))))
   \<and> new_events this (snd (pciep_driver_file_ioctl this GET_FILE_LENGTH v nc)) =
       [RegRead 0x40 (regs this 0x40), RegRead 0x3C (regs this 0x3C), CopyToUser nc]"
  by (simp add: pciep_driver_file_ioctl_def ioctl_cmds step_defs Let_def reg_offsets
      new_events_def)

text \<open>
  C1, as stated, fails: on a register block whose only non-zero word is the one at offset
  0x44, the claimed value low(0x40) | (high(0x44) << 32) is 0x100000000, and get-file-length
  returns 0.
\<close>

theorem get_file_length_not_from_0x44:
  "snd (fst (pciep_driver_file_ioctl
              (attached_device\<lparr>regs := (regs attached_device)(0x44 := 1)\<rparr>)
              GET_FILE_LENGTH 0 0)) = Some (OutSize 0)
   \<and> (ucast ((regs (attached_device\<lparr>regs := (regs attached_device)(0x44 := 1)\<rparr>)) 0x40) :: u64)
       OR push_bit 32 (ucast ((regs (attached_device\<lparr>regs := (regs attached_device)(0x44 := 1)\<rparr>)) 0x44))
     = 0x100000000"
  by (simp add: pciep_driver_file_ioctl_def ioctl_cmds step_defs Let_def reg_offsets
      attached_device_def zero_block_def)

text \<open>
  C2, as the code has it: for every 64-bit offset \<open>v\<close> and every prior register state,
  set-read-offset writes the low 32 bits of \<open>v\<close> to the read byte-offset register and sets
  bits [16:32) of the read-ready register to bits [32:48) of \<open>v\<close>, that is
  (v >> 32) & 0xFFFF, leaving bits [0:16), and so bit 0 (the ready flag), unchanged. In
  particular set-read-offset(0x1_0000) leaves bits [16:32) of the read-ready register all
  zero.
\<close>

theorem set_read_offset_packs_bits_32_to_47:
  "regs (snd (pciep_driver_file_ioctl this SET_READ_OFFSET v nc)) PCIEP_READ_BUFFER_OFFSET
     = ucast v
   \<and> drop_bit 16 (regs (snd (pciep_driver_file_ioctl this SET_READ_OFFSET v nc))
                    PCIEP_READ_BUFFER_READY)
     = ucast (drop_bit 32 v AND 0xFFFF)
   \<and> regs (snd (pciep_driver_file_ioctl this SET_READ_OFFSET v nc)) PCIEP_READ_BUFFER_READY
       AND 0xFFFF
     = regs this PCIEP_READ_BUFFER_READY AND 0xFFFF
   \<and> bit (regs (snd (pciep_driver_file_ioctl this SET_READ_OFFSET v nc))
             PCIEP_READ_BUFFER_READY) 0
     = bit (regs this PCIEP_READ_BUFFER_READY) 0
   \<and> drop_bit 16 (regs (snd (pciep_driver_file_ioctl this SET_READ_OFFSET 0x10000 nc))
                    PCIEP_READ_BUFFER_READY)
     = 0"
proof -
  have off: "regs (snd (pciep_driver_file_ioctl this SET_READ_OFFSET v nc))
               PCIEP_READ_BUFFER_OFFSET = ucast v"
    by (simp add: set_read_offset_regs ready_not_offset)
  have rdy: "regs (snd (pciep_driver_file_ioctl this SET_READ_OFFSET w nc))
               PCIEP_READ_BUFFER_READY
             = (regs this PCIEP_READ_BUFFER_READY AND 0xFFFF)
               OR push_bit 16 (ucast (drop_bit 32 w AND 0xFFFF))" for w
    by (simp only: set_read_offset_regs fun_upd_same packed_ready_word)
  have zero: "ucast (drop_bit 32 (0x10000 :: u64) AND 0xFFFF) = (0 :: u32)"
    by (simp add: drop_bit_eq_div)
  have hi: "drop_bit 16 (regs (snd (pciep_driver_file_ioctl this SET_READ_OFFSET w nc))
                    PCIEP_READ_BUFFER_READY)
     = ucast (drop_bit 32 w AND 0xFFFF)" for w
    by (simp only: rdy packed_high_bits)
  have lo: "regs (snd (pciep_driver_file_ioctl this SET_READ_OFFSET v nc)) PCIEP_READ_BUFFER_READY
       AND 0xFFFF
     = regs this PCIEP_READ_BUFFER_READY AND 0xFFFF"
    by (simp only: rdy packed_low_bits)
  have b0: "bit (regs (snd (pciep_driver_file_ioctl this SET_READ_OFFSET v nc))
             PCIEP_READ_BUFFER_READY) 0
     = bit (regs this PCIEP_READ_BUFFER_READY) 0"
    by (simp only: rdy packed_bit0)
  have inst: "drop_bit 16 (regs (snd (pciep_driver_file_ioctl this SET_READ_OFFSET 0x10000 nc))
                    PCIEP_READ_BUFFER_READY)
     = 0"
    by (simp only: hi zero)
  show ?thesis
    by (intro conjI off hi lo b0 inst)
qed

text \<open>
  C2, as stated, fails: after set-read-offset(0x1_0000) on the freshly attached device,
  bit 16 of the read-ready register is clear.
\<close>

theorem set_read_offset_0x10000_leaves_bit16_clear:
  "\<not> bit (regs (snd (pciep_driver_file_ioctl attached_device SET_READ_OFFSET 0x10000 0))
             PCIEP_READ_BUFFER_READY) 16"
  by (simp add: pciep_driver_file_ioctl_def ioctl_cmds step_defs Let_def reg_offsets
      READ_BUF_HIGH_OFFSET_def attached_device_def zero_block_def drop_bit_eq_div)

text \<open>
  C3, as the code has it: after the open-time full reset, from any prior register state,
  the ready, transfer-done and byte-count registers of both directions and the byte-offset
  register of the read direction read as zero; the byte-offset register of the write
  direction keeps the value it had.
\<close>

theorem open_resets_all_but_write_offset:
  "regs (snd (pciep_driver_file_open this)) PCIEP_READ_BUFFER_READY = 0
   \<and> regs (snd (pciep_driver_file_open this)) PCIEP_WRITE_BUFFER_READY = 0
   \<and> regs (snd (pciep_driver_file_open this)) PCIEP_READ_TRANSFER_DONE = 0
   \<and> regs (snd (pciep_driver_file_open this)) PCIEP_WRITE_TRANSFER_DONE = 0
   \<and> regs (snd (pciep_driver_file_open this)) PCIEP_READ_BUFFER_OFFSET = 0
   \<and> regs (snd (pciep_driver_file_open this)) PCIEP_READ_BUFFER_SIZE = 0
   \<and> regs (snd (pciep_driver_file_open this)) PCIEP_WRITE_BUFFER_SIZE = 0
   \<and> regs (snd (pciep_driver_file_open this)) PCIEP_WRITE_BUFFER_OFFSET
       = regs this PCIEP_WRITE_BUFFER_OFFSET"
  by (simp add: pciep_driver_file_open_def pcie_reset_all_def step_defs Let_def
      PCIEP_CLR_REG_def reg_offsets)

text \<open>
  C3, as stated, fails: open on a device whose write byte-offset register holds 5 leaves
  that register non-zero.
\<close>

theorem open_keeps_write_offset:
  "regs (snd (pciep_driver_file_open
               (attached_device\<lparr>regs := (regs attached_device)(PCIEP_WRITE_BUFFER_OFFSET := 5)\<rparr>)))
        PCIEP_WRITE_BUFFER_OFFSET \<noteq> 0"
  by (simp add: pciep_driver_file_open_def pcie_reset_all_def step_defs Let_def
      PCIEP_CLR_REG_def reg_offsets attached_device_def zero_block_def)

text \<open>
  C8: for every register word \<open>w\<close> at the resolution register (offset 0x54), get-resolution
  hands the caller width = (w >> 0) & 0xFFFF and height = (w >> 16) & 0xFFFF; on
  w = 0x04380780 that is width 1920 (0x0780) and height 1080 (0x0438).
\<close>

theorem get_resolution_decodes:
  "snd (fst (pciep_driver_file_ioctl this GET_RESOLUTION v nc)) =
     Some (OutRes \<lparr> width = drop_bit 0 (regs this 0x54) AND 0xFFFF,
                     height = drop_bit 16 (regs this 0x54) AND 0xFFFF \<rparr>)
   \<and> snd (fst (pciep_driver_file_ioctl (this\<lparr>regs := (regs this)(0x54 := 0x04380780)\<rparr>)
                 GET_RESOLUTION v nc)) =
     Some (OutRes \<lparr> width = 1920, height = 1080 \<rparr>)
   \<and> (1920 :: u32) = 0x0780 \<and> (1080 :: u32) = 0x0438"
  by (simp add: pciep_driver_file_ioctl_def ioctl_cmds step_defs Let_def reg_offsets
      WIDTH_SHIFT_def WIDTH_MASK_def HEIGHT_SHIFT_def HEIGHT_MASK_def drop_bit_eq_div)

text \<open>
  C9: for every 64-bit offset, positional seek leaves the register block exactly as
  set-read-offset with that value does and performs the same register accesses in the same
  order (the control request only copies its argument from the caller first): the value,
  cut to 32 bits, goes to the read byte-offset register, and the high 16 bits of the
  read-ready register are replaced by (offset >> 16) masked with 0xFFFF0000, the low 16 bits
  staying as they were.
\<close>

theorem lseek_same_registers_as_set_read_offset:
  "regs (snd (pciep_driver_file_lseek this v))
     = regs (snd (pciep_driver_file_ioctl this SET_READ_OFFSET v nc))
   \<and> new_events this (snd (pciep_driver_file_ioctl this SET_READ_OFFSET v nc))
     = CopyFromUser nc # new_events this (snd (pciep_driver_file_lseek this v))
   \<and> regs (snd (pciep_driver_file_lseek this v)) =
       (regs this)
         (PCIEP_READ_BUFFER_OFFSET := ucast v,
          PCIEP_READ_BUFFER_READY :=
            (regs this PCIEP_READ_BUFFER_READY AND NOT 0xFFFF0000)
            OR (ucast (signed_drop_bit 16 v AND 0xFFFF0000)))
   \<and> regs (snd (pciep_driver_file_lseek this v)) PCIEP_READ_BUFFER_READY AND 0xFFFF
       = regs this PCIEP_READ_BUFFER_READY AND 0xFFFF"
proof -
  have a: "(ucast (signed_drop_bit 16 v AND 0xFFFF0000) :: u32)
             = ucast (drop_bit 16 v) AND 0xFFFF0000"
    unfolding signed_shift_masked high_half_mask
    by (rule bit_word_eqI) (auto simp: bit_simps)
  have same: "regs (snd (pciep_driver_file_lseek this v))
     = regs (snd (pciep_driver_file_ioctl this SET_READ_OFFSET v nc))"
    by (simp only: lseek_regs set_read_offset_regs)
  have evs: "new_events this (snd (pciep_driver_file_ioctl this SET_READ_OFFSET v nc))
     = CopyFromUser nc # new_events this (snd (pciep_driver_file_lseek this v))"
    by (simp only: lseek_events set_read_offset_events)
  have expl: "regs (snd (pciep_driver_file_lseek this v)) =
       (regs this)
         (PCIEP_READ_BUFFER_OFFSET := ucast v,
          PCIEP_READ_BUFFER_READY :=
            (regs this PCIEP_READ_BUFFER_READY AND NOT 0xFFFF0000)
            OR (ucast (signed_drop_bit 16 v AND 0xFFFF0000)))"
    by (simp only: lseek_regs a packed_ready_as_masked_shift)
  have low: "regs (snd (pciep_driver_file_lseek this v)) PCIEP_READ_BUFFER_READY AND 0xFFFF
               = regs this PCIEP_READ_BUFFER_READY AND 0xFFFF"
    by (simp only: lseek_regs fun_upd_same packed_ready_word packed_low_bits)
  show ?thesis
    by (intro conjI same evs expl low)
qed

text \<open>
  C10: each per-direction completion handler changes the register block in one place only,
  bit 0 of its direction's ready register: the block afterwards is the block before with
  that register replaced by its old value with bit 0 cleared, so every other bit of that
  register (bits [16:32) included) and every other register are as before. (Reading the
  interrupt-acknowledge word is modelled as leaving the block unchanged.)
\<close>

theorem irq_handlers_change_only_ready_bit0:
  "regs (xilinx_pciep_read_irq_handler this) =
     (regs this)(PCIEP_READ_BUFFER_READY := regs this PCIEP_READ_BUFFER_READY AND NOT 1)
   \<and> bit (regs (xilinx_pciep_read_irq_handler this) PCIEP_READ_BUFFER_READY) n
       = (bit (regs this PCIEP_READ_BUFFER_READY) n \<and> n \<noteq> 0)
   \<and> regs (xilinx_pciep_write_irq_handler this) =
     (regs this)(PCIEP_WRITE_BUFFER_READY := regs this PCIEP_WRITE_BUFFER_READY AND NOT 1)
   \<and> bit (regs (xilinx_pciep_write_irq_handler this) PCIEP_WRITE_BUFFER_READY) n
       = (bit (regs this PCIEP_WRITE_BUFFER_READY) n \<and> n \<noteq> 0)"
proof -
  have r: "regs (xilinx_pciep_read_irq_handler this) =
     (regs this)(PCIEP_READ_BUFFER_READY := regs this PCIEP_READ_BUFFER_READY AND NOT 1)"
    by (simp add: xilinx_pciep_read_irq_handler_def step_defs Let_def SET_BUFFER_RDY_def)
  have w: "regs (xilinx_pciep_write_irq_handler this) =
     (regs this)(PCIEP_WRITE_BUFFER_READY := regs this PCIEP_WRITE_BUFFER_READY AND NOT 1)"
    by (simp add: xilinx_pciep_write_irq_handler_def step_defs Let_def SET_BUFFER_RDY_def)
  have rb: "bit (regs (xilinx_pciep_read_irq_handler this) PCIEP_READ_BUFFER_READY) n
       = (bit (regs this PCIEP_READ_BUFFER_READY) n \<and> n \<noteq> 0)"
    by (simp only: r fun_upd_same clear_bit0)
  have wb: "bit (regs (xilinx_pciep_write_irq_handler this) PCIEP_WRITE_BUFFER_READY) n
       = (bit (regs this PCIEP_WRITE_BUFFER_READY) n \<and> n \<noteq> 0)"
    by (simp only: w fun_upd_same clear_bit0)
  show ?thesis
    by (intro conjI r rb w wb)
qed

subsection \<open>Interrupts and sleeping callers\<close>

lemma deliver_irq_trace:
  "\<exists>evs. trace (deliver_irq i s) = trace s @ evs \<and>
     (\<forall>e \<in> set evs. \<not> is_dma e \<and> \<not> sets_ready PCIEP_READ_BUFFER_READY e
                      \<and> \<not> sets_ready PCIEP_WRITE_BUFFER_READY e)"
  by (cases i; simp add: xilinx_pciep_read_irq_handler_def xilinx_pciep_write_irq_handler_def
      xilinx_pciep_host_done_irq_handler_def step_defs Let_def SET_BUFFER_RDY_def
      clear_bit0_minus2 reg_offsets PCIEP_CLR_REG_def)

lemma deliver_irq_buffers:
  "read_virt_addr (deliver_irq i s) = read_virt_addr s"
  "read_phys_addr (deliver_irq i s) = read_phys_addr s"
  "write_virt_addr (deliver_irq i s) = write_virt_addr s"
  "write_phys_addr (deliver_irq i s) = write_phys_addr s"
  by (cases i; simp add: xilinx_pciep_read_irq_handler_def xilinx_pciep_write_irq_handler_def
      xilinx_pciep_host_done_irq_handler_def step_defs Let_def split: direction.splits)+

lemma take_completion_fields:
  "trace (take_completion d s) = trace s"
  "regs (take_completion d s) = regs s"
  "read_virt_addr (take_completion d s) = read_virt_addr s"
  "read_phys_addr (take_completion d s) = read_phys_addr s"
  "write_virt_addr (take_completion d s) = write_virt_addr s"
  "write_phys_addr (take_completion d s) = write_phys_addr s"
  by (cases d; simp add: take_completion_def)+

lemma wait_trace:
  "\<exists>evs. trace (snd (wait_for_completion d irqs s)) = trace s @ evs \<and>
     (\<forall>e \<in> set evs. \<not> is_dma e \<and> \<not> sets_ready PCIEP_READ_BUFFER_READY e
                      \<and> \<not> sets_ready PCIEP_WRITE_BUFFER_READY e)"
proof (induction irqs arbitrary: s)
  case Nil
  show ?case by (simp add: take_completion_fields)
next
  case (Cons i irqs)
  show ?case
  proof (cases "0 < completion_done d s")
    case True
    then show ?thesis by (simp add: take_completion_fields)
  next
    case False
    obtain evs0 where e0: "trace (deliver_irq i s) = trace s @ evs0"
      "\<forall>e \<in> set evs0. \<not> is_dma e \<and> \<not> sets_ready PCIEP_READ_BUFFER_READY e
                      \<and> \<not> sets_ready PCIEP_WRITE_BUFFER_READY e"
      using deliver_irq_trace [of i s] by blast
    obtain evs where e: "trace (snd (wait_for_completion d irqs (deliver_irq i s)))
                           = trace (deliver_irq i s) @ evs"
      "\<forall>e \<in> set evs. \<not> is_dma e \<and> \<not> sets_ready PCIEP_READ_BUFFER_READY e
                      \<and> \<not> sets_ready PCIEP_WRITE_BUFFER_READY e"
      using Cons.IH [of "deliver_irq i s"] by blast
    have "trace (snd (wait_for_completion d (i # irqs) s)) = trace s @ (evs0 @ evs)"
      using False e(1) e0(1) by simp
    moreover have "\<forall>e \<in> set (evs0 @ evs). \<not> is_dma e
        \<and> \<not> sets_ready PCIEP_READ_BUFFER_READY e \<and> \<not> sets_ready PCIEP_WRITE_BUFFER_READY e"
      using e(2) e0(2) by auto
    ultimately show ?thesis by blast
  qed
qed

lemma wait_buffers:
  "read_virt_addr (snd (wait_for_completion d irqs s)) = read_virt_addr s \<and>
   read_phys_addr (snd (wait_for_completion d irqs s)) = read_phys_addr s \<and>
   write_virt_addr (snd (wait_for_completion d irqs s)) = write_virt_addr s \<and>
   write_phys_addr (snd (wait_for_completion d irqs s)) = write_phys_addr s"
  by (induction irqs arbitrary: s) (simp_all add: take_completion_fields deliver_irq_buffers)

lemma read_irq_arms_completion:
  "0 < completion_done Rd (deliver_irq RdIrq s)"
  "\<not> bit (regs (deliver_irq RdIrq s) PCIEP_READ_BUFFER_READY) 0"
  by (simp_all add: xilinx_pciep_read_irq_handler_def step_defs Let_def SET_BUFFER_RDY_def
      clear_bit0_minus2 completion_done_def)

lemma write_irq_arms_completion:
  "0 < completion_done Wr (deliver_irq WrIrq s)"
  "\<not> bit (regs (deliver_irq WrIrq s) PCIEP_WRITE_BUFFER_READY) 0"
  by (simp_all add: xilinx_pciep_write_irq_handler_def step_defs Let_def SET_BUFFER_RDY_def
      clear_bit0_minus2 completion_done_def)

lemma other_irq_keeps_read_side:
  "i \<noteq> RdIrq \<Longrightarrow> completion_done Rd (deliver_irq i s) = completion_done Rd s"
  by (cases i; simp add: xilinx_pciep_write_irq_handler_def
      xilinx_pciep_host_done_irq_handler_def step_defs Let_def completion_done_def)

lemma other_irq_keeps_write_side:
  "i \<noteq> WrIrq \<Longrightarrow> completion_done Wr (deliver_irq i s) = completion_done Wr s"
  by (cases i; simp add: xilinx_pciep_read_irq_handler_def
      xilinx_pciep_host_done_irq_handler_def step_defs Let_def completion_done_def)

lemma woken_reader_sees_ready_clear:
  "fst (wait_for_completion Rd irqs s) \<Longrightarrow>
   completion_done Rd s = 0 \<or> \<not> bit (regs s PCIEP_READ_BUFFER_READY) 0 \<Longrightarrow>
   \<not> bit (regs (snd (wait_for_completion Rd irqs s)) PCIEP_READ_BUFFER_READY) 0"
proof (induction irqs arbitrary: s)
  case Nil
  then show ?case by (auto simp: take_completion_fields split: if_splits)
next
  case (Cons i irqs)
  show ?case
  proof (cases "0 < completion_done Rd s")
    case True
    with Cons.prems show ?thesis by (auto simp: take_completion_fields)
  next
    case False
    have inv: "completion_done Rd (deliver_irq i s) = 0 \<or>
               \<not> bit (regs (deliver_irq i s) PCIEP_READ_BUFFER_READY) 0"
    proof (cases "i = RdIrq")
      case True
      then show ?thesis using read_irq_arms_completion(2) [of s] by simp
    next
      case False
      then show ?thesis using other_irq_keeps_read_side [of i s] \<open>\<not> 0 < completion_done Rd s\<close>
        by simp
    qed
    from Cons.prems(1) False have "fst (wait_for_completion Rd irqs (deliver_irq i s))"
      by simp
    from Cons.IH [OF this inv] show ?thesis using False by simp
  qed
qed

lemma woken_writer_sees_ready_clear:
  "fst (wait_for_completion Wr irqs s) \<Longrightarrow>
   completion_done Wr s = 0 \<or> \<not> bit (regs s PCIEP_WRITE_BUFFER_READY) 0 \<Longrightarrow>
   \<not> bit (regs (snd (wait_for_completion Wr irqs s)) PCIEP_WRITE_BUFFER_READY) 0"
proof (induction irqs arbitrary: s)
  case Nil
  then show ?case by (auto simp: take_completion_fields split: if_splits)
next
  case (Cons i irqs)
  show ?case
  proof (cases "0 < completion_done Wr s")
    case True
    with Cons.prems show ?thesis by (auto simp: take_completion_fields)
  next
    case False
    have inv: "completion_done Wr (deliver_irq i s) = 0 \<or>
               \<not> bit (regs (deliver_irq i s) PCIEP_WRITE_BUFFER_READY) 0"
    proof (cases "i = WrIrq")
      case True
      then show ?thesis using write_irq_arms_completion(2) [of s] by simp
    next
      case False
      then show ?thesis using other_irq_keeps_write_side [of i s] \<open>\<not> 0 < completion_done Wr s\<close>
        by simp
    qed
    from Cons.prems(1) False have "fst (wait_for_completion Wr irqs (deliver_irq i s))"
      by simp
    from Cons.IH [OF this inv] show ?thesis using False by simp
  qed
qed

lemma own_irq_wakes_reader: "fst (wait_for_completion Rd (irqs @ [RdIrq]) s)"
proof (induction irqs arbitrary: s)
  case Nil
  show ?case using read_irq_arms_completion(1) [of s] by simp
next
  case (Cons i irqs)
  then show ?case by simp
qed

lemma own_irq_wakes_writer: "fst (wait_for_completion Wr (irqs @ [WrIrq]) s)"
proof (induction irqs arbitrary: s)
  case Nil
  show ?case using write_irq_arms_completion(1) [of s] by simp
next
  case (Cons i irqs)
  then show ?case by simp
qed

subsection \<open>Data transfers\<close>

text \<open>The state in which a read call goes to sleep, and what the call does from there.\<close>

lemma file_read_announced:
  assumes "\<not> count \<le> 0"
  shows "\<exists>s5. trace s5 = trace this @
           [DmaAlloc count (Some (virt, phys)),
            RegWrite PCIEP_READ_BUFFER_ADDR (ucast phys),
            RegWrite PCIEP_READ_BUFFER_SIZE (ucast count),
            RegRead PCIEP_READ_BUFFER_READY (regs this PCIEP_READ_BUFFER_READY),
            RegWrite PCIEP_READ_BUFFER_READY (regs this PCIEP_READ_BUFFER_READY OR 1)]
         \<and> read_virt_addr s5 = Some virt \<and> read_phys_addr s5 = phys
         \<and> (\<forall>irqs. pciep_driver_file_read this count (Some (virt, phys)) nc irqs =
               (if fst (wait_for_completion Rd irqs s5)
                then (Some (sint (ucast nc :: u32)),
                      dma_free_coherent count
                        (read_virt_addr (snd (wait_for_completion Rd irqs s5)))
                        (read_phys_addr (snd (wait_for_completion Rd irqs s5)))
                        (log_event (CopyToUser nc) (snd (wait_for_completion Rd irqs s5))))
                else (None, snd (wait_for_completion Rd irqs s5))))"
proof -
  define s1 where "s1 = (dma_alloc_coherent count (Some (virt, phys)) this)
                          \<lparr>read_virt_addr := Some virt, read_phys_addr := phys\<rparr>"
  define s5 where "s5 =
    reg_write
      (snd (reg_read
             (reg_write (reg_write s1 PCIEP_READ_BUFFER_ADDR (ucast phys))
                        PCIEP_READ_BUFFER_SIZE (ucast count))
             PCIEP_READ_BUFFER_READY))
      PCIEP_READ_BUFFER_READY (regs this PCIEP_READ_BUFFER_READY OR SET_BUFFER_RDY)"
  have t: "trace s5 = trace this @
           [DmaAlloc count (Some (virt, phys)),
            RegWrite PCIEP_READ_BUFFER_ADDR (ucast phys),
            RegWrite PCIEP_READ_BUFFER_SIZE (ucast count),
            RegRead PCIEP_READ_BUFFER_READY (regs this PCIEP_READ_BUFFER_READY),
            RegWrite PCIEP_READ_BUFFER_READY (regs this PCIEP_READ_BUFFER_READY OR 1)]"
    by (simp add: s5_def s1_def step_defs SET_BUFFER_RDY_def reg_offsets)
  have f: "read_virt_addr s5 = Some virt" "read_phys_addr s5 = phys"
    by (simp_all add: s5_def s1_def step_defs)
  have u: "pciep_driver_file_read this count (Some (virt, phys)) nc irqs =
               (if fst (wait_for_completion Rd irqs s5)
                then (Some (sint (ucast nc :: u32)),
                      dma_free_coherent count
                        (read_virt_addr (snd (wait_for_completion Rd irqs s5)))
                        (read_phys_addr (snd (wait_for_completion Rd irqs s5)))
                        (log_event (CopyToUser nc) (snd (wait_for_completion Rd irqs s5))))
                else (None, snd (wait_for_completion Rd irqs s5)))" for irqs
    using assms
    by (cases "wait_for_completion Rd irqs s5")
       (simp add: pciep_driver_file_read_def s5_def s1_def step_defs Let_def reg_offsets
          SET_BUFFER_RDY_def)
  show ?thesis using t f u by blast
qed

lemma file_write_copy_failed:
  assumes "\<not> count \<le> 0" and "sint (ucast nc :: u32) \<noteq> 0"
  shows "fst (pciep_driver_file_write this count (Some (virt, phys)) nc irqs)
           = Some (sint (ucast nc :: u32))"
    and "new_events this (snd (pciep_driver_file_write this count (Some (virt, phys)) nc irqs))
           = [DmaAlloc count (Some (virt, phys)), CopyFromUser nc,
              DmaFree count (Some virt) phys]"
  using assms
  by (simp_all add: pciep_driver_file_write_def step_defs Let_def new_events_def)

lemma file_write_announced:
  assumes "\<not> count \<le> 0" and "sint (ucast nc :: u32) = 0"
  shows "\<exists>s6. trace s6 = trace this @
           [DmaAlloc count (Some (virt, phys)),
            CopyFromUser nc,
            RegWrite PCIEP_WRITE_BUFFER_ADDR (ucast phys),
            RegWrite PCIEP_WRITE_BUFFER_SIZE (ucast count),
            RegRead PCIEP_WRITE_BUFFER_READY (regs this PCIEP_WRITE_BUFFER_READY),
            RegWrite PCIEP_WRITE_BUFFER_READY (regs this PCIEP_WRITE_BUFFER_READY OR 1)]
         \<and> write_virt_addr s6 = Some virt \<and> write_phys_addr s6 = phys
         \<and> (\<forall>irqs. pciep_driver_file_write this count (Some (virt, phys)) nc irqs =
               (if fst (wait_for_completion Wr irqs s6)
                then (Some 0,
                      dma_free_coherent count
                        (write_virt_addr (snd (wait_for_completion Wr irqs s6)))
                        (write_phys_addr (snd (wait_for_completion Wr irqs s6)))
                        (snd (wait_for_completion Wr irqs s6)))
                else (None, snd (wait_for_completion Wr irqs s6))))"
proof -
  define s2 where "s2 = log_event (CopyFromUser nc)
                          ((dma_alloc_coherent count (Some (virt, phys)) this)
                             \<lparr>write_virt_addr := Some virt, write_phys_addr := phys\<rparr>)"
  define s6 where "s6 =
    reg_write
      (snd (reg_read
             (reg_write (reg_write s2 PCIEP_WRITE_BUFFER_ADDR (ucast phys))
                        PCIEP_WRITE_BUFFER_SIZE (ucast count))
             PCIEP_WRITE_BUFFER_READY))
      PCIEP_WRITE_BUFFER_READY (regs this PCIEP_WRITE_BUFFER_READY OR SET_BUFFER_RDY)"
  have t: "trace s6 = trace this @
           [DmaAlloc count (Some (virt, phys)),
            CopyFromUser nc,
            RegWrite PCIEP_WRITE_BUFFER_ADDR (ucast phys),
            RegWrite PCIEP_WRITE_BUFFER_SIZE (ucast count),
            RegRead PCIEP_WRITE_BUFFER_READY (regs this PCIEP_WRITE_BUFFER_READY),
            RegWrite PCIEP_WRITE_BUFFER_READY (regs this PCIEP_WRITE_BUFFER_READY OR 1)]"
    by (simp add: s6_def s2_def step_defs SET_BUFFER_RDY_def reg_offsets)
  have f: "write_virt_addr s6 = Some virt" "write_phys_addr s6 = phys"
    by (simp_all add: s6_def s2_def step_defs)
  have u: "pciep_driver_file_write this count (Some (virt, phys)) nc irqs =
               (if fst (wait_for_completion Wr irqs s6)
                then (Some 0,
                      dma_free_coherent count
                        (write_virt_addr (snd (wait_for_completion Wr irqs s6)))
                        (write_phys_addr (snd (wait_for_completion Wr irqs s6)))
                        (snd (wait_for_completion Wr irqs s6)))
                else (None, snd (wait_for_completion Wr irqs s6)))" for irqs
    using assms
    by (cases "wait_for_completion Wr irqs s6")
       (simp add: pciep_driver_file_write_def s6_def s2_def step_defs Let_def reg_offsets
          SET_BUFFER_RDY_def)
  show ?thesis using t f u by blast
qed

text \<open>The effects of a read call that got its buffer: the announce sequence, then what
  the interrupt handlers did while it slept, then (if it was woken) the copy to the caller
  and the release.\<close>

lemma file_read_events:
  assumes "\<not> count \<le> 0"
  shows "\<exists>evs. (\<forall>e \<in> set evs. \<not> is_dma e \<and> \<not> sets_ready PCIEP_READ_BUFFER_READY e
                      \<and> \<not> sets_ready PCIEP_WRITE_BUFFER_READY e)
     \<and> new_events this (snd (pciep_driver_file_read this count (Some (virt, phys)) nc irqs)) =
         [DmaAlloc count (Some (virt, phys)),
          RegWrite PCIEP_READ_BUFFER_ADDR (ucast phys),
          RegWrite PCIEP_READ_BUFFER_SIZE (ucast count),
          RegRead PCIEP_READ_BUFFER_READY (regs this PCIEP_READ_BUFFER_READY),
          RegWrite PCIEP_READ_BUFFER_READY (regs this PCIEP_READ_BUFFER_READY OR 1)]
         @ evs
         @ (if fst (pciep_driver_file_read this count (Some (virt, phys)) nc irqs) = None
            then [] else [CopyToUser nc, DmaFree count (Some virt) phys])"
proof -
  from file_read_announced [OF assms, of this virt phys nc] obtain s5 where
    t: "trace s5 = trace this @
           [DmaAlloc count (Some (virt, phys)),
            RegWrite PCIEP_READ_BUFFER_ADDR (ucast phys),
            RegWrite PCIEP_READ_BUFFER_SIZE (ucast count),
            RegRead PCIEP_READ_BUFFER_READY (regs this PCIEP_READ_BUFFER_READY),
            RegWrite PCIEP_READ_BUFFER_READY (regs this PCIEP_READ_BUFFER_READY OR 1)]"
    and f: "read_virt_addr s5 = Some virt" "read_phys_addr s5 = phys"
    and u: "pciep_driver_file_read this count (Some (virt, phys)) nc irqs =
               (if fst (wait_for_completion Rd irqs s5)
                then (Some (sint (ucast nc :: u32)),
                      dma_free_coherent count
                        (read_virt_addr (snd (wait_for_completion Rd irqs s5)))
                        (read_phys_addr (snd (wait_for_completion Rd irqs s5)))
                        (log_event (CopyToUser nc) (snd (wait_for_completion Rd irqs s5))))
                else (None, snd (wait_for_completion Rd irqs s5)))"
    by blast
  from wait_trace [of Rd irqs s5] obtain evs where
    e: "trace (snd (wait_for_completion Rd irqs s5)) = trace s5 @ evs"
       "\<forall>e \<in> set evs. \<not> is_dma e \<and> \<not> sets_ready PCIEP_READ_BUFFER_READY e
                      \<and> \<not> sets_ready PCIEP_WRITE_BUFFER_READY e"
    by blast
  have b: "read_virt_addr (snd (wait_for_completion Rd irqs s5)) = Some virt"
          "read_phys_addr (snd (wait_for_completion Rd irqs s5)) = phys"
    using wait_buffers [of Rd irqs s5] f by simp_all
  have "new_events this (snd (pciep_driver_file_read this count (Some (virt, phys)) nc irqs)) =
         [DmaAlloc count (Some (virt, phys)),
          RegWrite PCIEP_READ_BUFFER_ADDR (ucast phys),
          RegWrite PCIEP_READ_BUFFER_SIZE (ucast count),
          RegRead PCIEP_READ_BUFFER_READY (regs this PCIEP_READ_BUFFER_READY),
          RegWrite PCIEP_READ_BUFFER_READY (regs this PCIEP_READ_BUFFER_READY OR 1)]
         @ evs
         @ (if fst (pciep_driver_file_read this count (Some (virt, phys)) nc irqs) = None
            then [] else [CopyToUser nc, DmaFree count (Some virt) phys])"
    by (simp add: u new_events_def dma_free_coherent_def log_event_def e(1) t b)
  with e(2) show ?thesis by blast
qed

lemma file_write_events:
  assumes "\<not> count \<le> 0" and "sint (ucast nc :: u32) = 0"
  shows "\<exists>evs. (\<forall>e \<in> set evs. \<not> is_dma e \<and> \<not> sets_ready PCIEP_READ_BUFFER_READY e
                      \<and> \<not> sets_ready PCIEP_WRITE_BUFFER_READY e)
     \<and> new_events this (snd (pciep_driver_file_write this count (Some (virt, phys)) nc irqs)) =
         [DmaAlloc count (Some (virt, phys)),
          CopyFromUser nc,
          RegWrite PCIEP_WRITE_BUFFER_ADDR (ucast phys),
          RegWrite PCIEP_WRITE_BUFFER_SIZE (ucast count),
          RegRead PCIEP_WRITE_BUFFER_READY (regs this PCIEP_WRITE_BUFFER_READY),
          RegWrite PCIEP_WRITE_BUFFER_READY (regs this PCIEP_WRITE_BUFFER_READY OR 1)]
         @ evs
         @ (if fst (pciep_driver_file_write this count (Some (virt, phys)) nc irqs) = None
            then [] else [DmaFree count (Some virt) phys])"
proof -
  from file_write_announced [OF assms, of this virt phys] obtain s6 where
    t: "trace s6 = trace this @
           [DmaAlloc count (Some (virt, phys)),
            CopyFromUser nc,
            RegWrite PCIEP_WRITE_BUFFER_ADDR (ucast phys),
            RegWrite PCIEP_WRITE_BUFFER_SIZE (ucast count),
            RegRead PCIEP_WRITE_BUFFER_READY (regs this PCIEP_WRITE_BUFFER_READY),
            RegWrite PCIEP_WRITE_BUFFER_READY (regs this PCIEP_WRITE_BUFFER_READY OR 1)]"
    and f: "write_virt_addr s6 = Some virt" "write_phys_addr s6 = phys"
    and u: "pciep_driver_file_write this count (Some (virt, phys)) nc irqs =
               (if fst (wait_for_completion Wr irqs s6)
                then (Some 0,
                      dma_free_coherent count
                        (write_virt_addr (snd (wait_for_completion Wr irqs s6)))
                        (write_phys_addr (snd (wait_for_completion Wr irqs s6)))
                        (snd (wait_for_completion Wr irqs s6)))
                else (None, snd (wait_for_completion Wr irqs s6)))"
    by blast
  from wait_trace [of Wr irqs s6] obtain evs where
    e: "trace (snd (wait_for_completion Wr irqs s6)) = trace s6 @ evs"
       "\<forall>e \<in> set evs. \<not> is_dma e \<and> \<not> sets_ready PCIEP_READ_BUFFER_READY e
                      \<and> \<not> sets_ready PCIEP_WRITE_BUFFER_READY e"
    by blast
  have b: "write_virt_addr (snd (wait_for_completion Wr irqs s6)) = Some virt"
          "write_phys_addr (snd (wait_for_completion Wr irqs s6)) = phys"
    using wait_buffers [of Wr irqs s6] f by simp_all
  have "new_events this (snd (pciep_driver_file_write this count (Some (virt, phys)) nc irqs)) =
         [DmaAlloc count (Some (virt, phys)),
          CopyFromUser nc,
          RegWrite PCIEP_WRITE_BUFFER_ADDR (ucast phys),
          RegWrite PCIEP_WRITE_BUFFER_SIZE (ucast count),
          RegRead PCIEP_WRITE_BUFFER_READY (regs this PCIEP_WRITE_BUFFER_READY),
          RegWrite PCIEP_WRITE_BUFFER_READY (regs this PCIEP_WRITE_BUFFER_READY OR 1)]
         @ evs
         @ (if fst (pciep_driver_file_write this count (Some (virt, phys)) nc irqs) = None
            then [] else [DmaFree count (Some virt) phys])"
    by (simp add: u new_events_def dma_free_coherent_def log_event_def e(1) t b)
  with e(2) show ?thesis by blast
qed

lemma file_read_returns_when_irq_fires:
  assumes "\<not> count \<le> 0"
  shows "fst (pciep_driver_file_read this count (Some (virt, phys)) nc (irqs @ [RdIrq]))
           = Some (sint (ucast nc :: u32))"
proof -
  from file_read_announced [OF assms, of this virt phys nc] obtain s5 where
    u: "\<forall>irqs. pciep_driver_file_read this count (Some (virt, phys)) nc irqs =
               (if fst (wait_for_completion Rd irqs s5)
                then (Some (sint (ucast nc :: u32)),
                      dma_free_coherent count
                        (read_virt_addr (snd (wait_for_completion Rd irqs s5)))
                        (read_phys_addr (snd (wait_for_completion Rd irqs s5)))
                        (log_event (CopyToUser nc) (snd (wait_for_completion Rd irqs s5))))
                else (None, snd (wait_for_completion Rd irqs s5)))"
    by blast
  show ?thesis
    by (simp add: u own_irq_wakes_reader)
qed

lemma file_write_returns_when_irq_fires:
  assumes "\<not> count \<le> 0"
  shows "fst (pciep_driver_file_write this count (Some (virt, phys)) nc (irqs @ [WrIrq]))
           = Some (sint (ucast nc :: u32))"
proof (cases "sint (ucast nc :: u32) = 0")
  case False
  then show ?thesis using file_write_copy_failed(1) [OF assms] by simp
next
  case True
  from file_write_announced [OF assms True, of this virt phys] obtain s6 where
    u: "\<forall>irqs. pciep_driver_file_write this count (Some (virt, phys)) nc irqs =
               (if fst (wait_for_completion Wr irqs s6)
                then (Some 0,
                      dma_free_coherent count
                        (write_virt_addr (snd (wait_for_completion Wr irqs s6)))
                        (write_phys_addr (snd (wait_for_completion Wr irqs s6)))
                        (snd (wait_for_completion Wr irqs s6)))
                else (None, snd (wait_for_completion Wr irqs s6)))"
    by blast
  show ?thesis
    by (simp add: u own_irq_wakes_writer True)
qed

text \<open>
  C4: in every read (resp. write) call that gets past the size check, the allocation
  (and, for write, the copy from the caller), the first effects are, in this order: the
  write of the device-visible address (cut to 32 bits) to the direction's address register,
  the write of the byte count (cut to 32 bits) to its size register, the read of the ready
  register, and the write that sets bit 0 of the ready register. No later effect of the call
  sets that bit again.
\<close>

theorem ready_set_after_address_and_count:
  assumes "\<not> count \<le> 0"
  shows
  "take 5 (new_events this
             (snd (pciep_driver_file_read this count (Some (virt, phys)) nc irqs))) =
     [DmaAlloc count (Some (virt, phys)),
      RegWrite PCIEP_READ_BUFFER_ADDR (ucast phys),
      RegWrite PCIEP_READ_BUFFER_SIZE (ucast count),
      RegRead PCIEP_READ_BUFFER_READY (regs this PCIEP_READ_BUFFER_READY),
      RegWrite PCIEP_READ_BUFFER_READY (regs this PCIEP_READ_BUFFER_READY OR 1)]
   \<and> sets_ready PCIEP_READ_BUFFER_READY
       (RegWrite PCIEP_READ_BUFFER_READY (regs this PCIEP_READ_BUFFER_READY OR 1))
   \<and> \<not> list_ex (sets_ready PCIEP_READ_BUFFER_READY)
         (drop 5 (new_events this
                    (snd (pciep_driver_file_read this count (Some (virt, phys)) nc irqs))))
   \<and> (sint (ucast nc :: u32) = 0 \<longrightarrow>
        take 6 (new_events this
                  (snd (pciep_driver_file_write this count (Some (virt, phys)) nc irqs))) =
          [DmaAlloc count (Some (virt, phys)),
           CopyFromUser nc,
           RegWrite PCIEP_WRITE_BUFFER_ADDR (ucast phys),
           RegWrite PCIEP_WRITE_BUFFER_SIZE (ucast count),
           RegRead PCIEP_WRITE_BUFFER_READY (regs this PCIEP_WRITE_BUFFER_READY),
           RegWrite PCIEP_WRITE_BUFFER_READY (regs this PCIEP_WRITE_BUFFER_READY OR 1)]
        \<and> sets_ready PCIEP_WRITE_BUFFER_READY
            (RegWrite PCIEP_WRITE_BUFFER_READY (regs this PCIEP_WRITE_BUFFER_READY OR 1))
        \<and> \<not> list_ex (sets_ready PCIEP_WRITE_BUFFER_READY)
              (drop 6 (new_events this
                 (snd (pciep_driver_file_write this count (Some (virt, phys)) nc irqs)))))"
proof -
  from file_read_events [OF assms, of this virt phys nc irqs] obtain evs where
    q: "\<forall>e \<in> set evs. \<not> is_dma e \<and> \<not> sets_ready PCIEP_READ_BUFFER_READY e
                      \<and> \<not> sets_ready PCIEP_WRITE_BUFFER_READY e"
    and n: "new_events this
              (snd (pciep_driver_file_read this count (Some (virt, phys)) nc irqs)) =
         [DmaAlloc count (Some (virt, phys)),
          RegWrite PCIEP_READ_BUFFER_ADDR (ucast phys),
          RegWrite PCIEP_READ_BUFFER_SIZE (ucast count),
          RegRead PCIEP_READ_BUFFER_READY (regs this PCIEP_READ_BUFFER_READY),
          RegWrite PCIEP_READ_BUFFER_READY (regs this PCIEP_READ_BUFFER_READY OR 1)]
         @ evs
         @ (if fst (pciep_driver_file_read this count (Some (virt, phys)) nc irqs) = None
            then [] else [CopyToUser nc, DmaFree count (Some virt) phys])"
    by blast
  have r1: "take 5 (new_events this
             (snd (pciep_driver_file_read this count (Some (virt, phys)) nc irqs))) =
     [DmaAlloc count (Some (virt, phys)),
      RegWrite PCIEP_READ_BUFFER_ADDR (ucast phys),
      RegWrite PCIEP_READ_BUFFER_SIZE (ucast count),
      RegRead PCIEP_READ_BUFFER_READY (regs this PCIEP_READ_BUFFER_READY),
      RegWrite PCIEP_READ_BUFFER_READY (regs this PCIEP_READ_BUFFER_READY OR 1)]"
    by (simp add: n)
  have r2: "sets_ready PCIEP_READ_BUFFER_READY
       (RegWrite PCIEP_READ_BUFFER_READY (regs this PCIEP_READ_BUFFER_READY OR 1))"
    by (simp add: set_bit0)
  have r3: "\<not> list_ex (sets_ready PCIEP_READ_BUFFER_READY)
         (drop 5 (new_events this
                    (snd (pciep_driver_file_read this count (Some (virt, phys)) nc irqs))))"
    using q by (simp add: n list_ex_iff)
  have w: "sint (ucast nc :: u32) = 0 \<longrightarrow>
        take 6 (new_events this
                  (snd (pciep_driver_file_write this count (Some (virt, phys)) nc irqs))) =
          [DmaAlloc count (Some (virt, phys)),
           CopyFromUser nc,
           RegWrite PCIEP_WRITE_BUFFER_ADDR (ucast phys),
           RegWrite PCIEP_WRITE_BUFFER_SIZE (ucast count),
           RegRead PCIEP_WRITE_BUFFER_READY (regs this PCIEP_WRITE_BUFFER_READY),
           RegWrite PCIEP_WRITE_BUFFER_READY (regs this PCIEP_WRITE_BUFFER_READY OR 1)]
        \<and> sets_ready PCIEP_WRITE_BUFFER_READY
            (RegWrite PCIEP_WRITE_BUFFER_READY (regs this PCIEP_WRITE_BUFFER_READY OR 1))
        \<and> \<not> list_ex (sets_ready PCIEP_WRITE_BUFFER_READY)
              (drop 6 (new_events this
                 (snd (pciep_driver_file_write this count (Some (virt, phys)) nc irqs))))"
  proof
    assume z: "sint (ucast nc :: u32) = 0"
    from file_write_events [OF assms z, of this virt phys irqs] obtain evs' where
      q': "\<forall>e \<in> set evs'. \<not> is_dma e \<and> \<not> sets_ready PCIEP_READ_BUFFER_READY e
                      \<and> \<not> sets_ready PCIEP_WRITE_BUFFER_READY e"
      and n': "new_events this
                (snd (pciep_driver_file_write this count (Some (virt, phys)) nc irqs)) =
         [DmaAlloc count (Some (virt, phys)),
          CopyFromUser nc,
          RegWrite PCIEP_WRITE_BUFFER_ADDR (ucast phys),
          RegWrite PCIEP_WRITE_BUFFER_SIZE (ucast count),
          RegRead PCIEP_WRITE_BUFFER_READY (regs this PCIEP_WRITE_BUFFER_READY),
          RegWrite PCIEP_WRITE_BUFFER_READY (regs this PCIEP_WRITE_BUFFER_READY OR 1)]
         @ evs'
         @ (if fst (pciep_driver_file_write this count (Some (virt, phys)) nc irqs) = None
            then [] else [DmaFree count (Some virt) phys])"
      by blast
    show "take 6 (new_events this
                  (snd (pciep_driver_file_write this count (Some (virt, phys)) nc irqs))) =
          [DmaAlloc count (Some (virt, phys)),
           CopyFromUser nc,
           RegWrite PCIEP_WRITE_BUFFER_ADDR (ucast phys),
           RegWrite PCIEP_WRITE_BUFFER_SIZE (ucast count),
           RegRead PCIEP_WRITE_BUFFER_READY (regs this PCIEP_WRITE_BUFFER_READY),
           RegWrite PCIEP_WRITE_BUFFER_READY (regs this PCIEP_WRITE_BUFFER_READY OR 1)]
        \<and> sets_ready PCIEP_WRITE_BUFFER_READY
            (RegWrite PCIEP_WRITE_BUFFER_READY (regs this PCIEP_WRITE_BUFFER_READY OR 1))
        \<and> \<not> list_ex (sets_ready PCIEP_WRITE_BUFFER_READY)
              (drop 6 (new_events this
                 (snd (pciep_driver_file_write this count (Some (virt, phys)) nc irqs))))"
      using q' by (simp add: n' list_ex_iff set_bit0)
  qed
  show ?thesis
    by (intro conjI r1 r2 r3 w)
qed

theorem ready_set_after_address_and_count_witness:
  "\<not> (4096 :: u64) \<le> 0
   \<and> take 5 (new_events attached_device
               (snd (pciep_driver_file_read attached_device 4096 (Some (0x1000, 0x2000)) 0
                       [WrIrq, RdIrq]))) =
       [DmaAlloc 4096 (Some (0x1000, 0x2000)),
        RegWrite PCIEP_READ_BUFFER_ADDR 0x2000,
        RegWrite PCIEP_READ_BUFFER_SIZE 4096,
        RegRead PCIEP_READ_BUFFER_READY 0,
        RegWrite PCIEP_READ_BUFFER_READY 1]
   \<and> sint (ucast (0 :: u64) :: u32) = 0
   \<and> take 6 (new_events attached_device
               (snd (pciep_driver_file_write attached_device 4096 (Some (0x1000, 0x2000)) 0
                       [WrIrq, RdIrq]))) =
       [DmaAlloc 4096 (Some (0x1000, 0x2000)),
        CopyFromUser 0,
        RegWrite PCIEP_WRITE_BUFFER_ADDR 0x2000,
        RegWrite PCIEP_WRITE_BUFFER_SIZE 4096,
        RegRead PCIEP_WRITE_BUFFER_READY 0,
        RegWrite PCIEP_WRITE_BUFFER_READY 1]
   \<and> \<not> list_ex (sets_ready PCIEP_WRITE_BUFFER_READY)
         (drop 6 (new_events attached_device
            (snd (pciep_driver_file_write attached_device 4096 (Some (0x1000, 0x2000)) 0
                    [WrIrq, RdIrq]))))"
proof -
  have h: "\<not> (4096 :: u64) \<le> 0" by simp
  have z: "sint (ucast (0 :: u64) :: u32) = 0" by simp
  have r: "regs attached_device PCIEP_READ_BUFFER_READY = 0"
          "regs attached_device PCIEP_WRITE_BUFFER_READY = 0"
    by (simp_all add: attached_device_def zero_block_def)
  show ?thesis
    using ready_set_after_address_and_count
            [OF h, of attached_device "0x1000" "0x2000" 0 "[WrIrq, RdIrq]"] h z
    by (simp add: r)
qed

text \<open>
  C6: a read or write call that got its buffer and returns, after a normal completion or
  after a failed copy across the user boundary, has called the allocator once and the
  release once, in this order, the release with exactly the size and the two addresses of
  the allocated buffer, as its last effect. Such calls do return: a write whose copy from
  the caller fails returns at once, and either call returns whenever its direction's
  completion interrupt fires at the end of the interrupts it sleeps through.
\<close>

theorem buffer_released_exactly_once:
  assumes "\<not> count \<le> 0"
  shows
  "(fst (pciep_driver_file_read this count (Some (virt, phys)) nc irqs) \<noteq> None \<longrightarrow>
      filter is_dma (new_events this
          (snd (pciep_driver_file_read this count (Some (virt, phys)) nc irqs)))
        = [DmaAlloc count (Some (virt, phys)), DmaFree count (Some virt) phys]
      \<and> last (new_events this
          (snd (pciep_driver_file_read this count (Some (virt, phys)) nc irqs)))
        = DmaFree count (Some virt) phys)
   \<and> (fst (pciep_driver_file_write this count (Some (virt, phys)) nc irqs) \<noteq> None \<longrightarrow>
      filter is_dma (new_events this
          (snd (pciep_driver_file_write this count (Some (virt, phys)) nc irqs)))
        = [DmaAlloc count (Some (virt, phys)), DmaFree count (Some virt) phys]
      \<and> last (new_events this
          (snd (pciep_driver_file_write this count (Some (virt, phys)) nc irqs)))
        = DmaFree count (Some virt) phys)
   \<and> (sint (ucast nc :: u32) \<noteq> 0 \<longrightarrow>
        fst (pciep_driver_file_write this count (Some (virt, phys)) nc irqs)
          = Some (sint (ucast nc :: u32)))
   \<and> fst (pciep_driver_file_read this count (Some (virt, phys)) nc (irqs @ [RdIrq]))
        = Some (sint (ucast nc :: u32))
   \<and> fst (pciep_driver_file_write this count (Some (virt, phys)) nc (irqs @ [WrIrq]))
        = Some (sint (ucast nc :: u32))"
proof -
  have rd: "fst (pciep_driver_file_read this count (Some (virt, phys)) nc irqs) \<noteq> None \<longrightarrow>
      filter is_dma (new_events this
          (snd (pciep_driver_file_read this count (Some (virt, phys)) nc irqs)))
        = [DmaAlloc count (Some (virt, phys)), DmaFree count (Some virt) phys]
      \<and> last (new_events this
          (snd (pciep_driver_file_read this count (Some (virt, phys)) nc irqs)))
        = DmaFree count (Some virt) phys"
  proof
    assume ret: "fst (pciep_driver_file_read this count (Some (virt, phys)) nc irqs) \<noteq> None"
    from file_read_events [OF assms, of this virt phys nc irqs] obtain evs where
      q: "\<forall>e \<in> set evs. \<not> is_dma e \<and> \<not> sets_ready PCIEP_READ_BUFFER_READY e
                      \<and> \<not> sets_ready PCIEP_WRITE_BUFFER_READY e"
      and n: "new_events this
              (snd (pciep_driver_file_read this count (Some (virt, phys)) nc irqs)) =
         [DmaAlloc count (Some (virt, phys)),
          RegWrite PCIEP_READ_BUFFER_ADDR (ucast phys),
          RegWrite PCIEP_READ_BUFFER_SIZE (ucast count),
          RegRead PCIEP_READ_BUFFER_READY (regs this PCIEP_READ_BUFFER_READY),
          RegWrite PCIEP_READ_BUFFER_READY (regs this PCIEP_READ_BUFFER_READY OR 1)]
         @ evs
         @ (if fst (pciep_driver_file_read this count (Some (virt, phys)) nc irqs) = None
            then [] else [CopyToUser nc, DmaFree count (Some virt) phys])"
      by blast
    have fe: "filter is_dma evs = []"
      using q by (simp add: filter_empty_conv)
    show "filter is_dma (new_events this
          (snd (pciep_driver_file_read this count (Some (virt, phys)) nc irqs)))
        = [DmaAlloc count (Some (virt, phys)), DmaFree count (Some virt) phys]
      \<and> last (new_events this
          (snd (pciep_driver_file_read this count (Some (virt, phys)) nc irqs)))
        = DmaFree count (Some virt) phys"
      using ret by (simp add: n fe)
  qed
  have wr: "fst (pciep_driver_file_write this count (Some (virt, phys)) nc irqs) \<noteq> None \<longrightarrow>
      filter is_dma (new_events this
          (snd (pciep_driver_file_write this count (Some (virt, phys)) nc irqs)))
        = [DmaAlloc count (Some (virt, phys)), DmaFree count (Some virt) phys]
      \<and> last (new_events this
          (snd (pciep_driver_file_write this count (Some (virt, phys)) nc irqs)))
        = DmaFree count (Some virt) phys"
  proof (cases "sint (ucast nc :: u32) = 0")
    case False
    show ?thesis
      by (simp add: file_write_copy_failed(2) [OF assms False])
  next
    case True
    show ?thesis
    proof
      assume ret: "fst (pciep_driver_file_write this count (Some (virt, phys)) nc irqs) \<noteq> None"
      from file_write_events [OF assms True, of this virt phys irqs] obtain evs where
        q: "\<forall>e \<in> set evs. \<not> is_dma e \<and> \<not> sets_ready PCIEP_READ_BUFFER_READY e
                      \<and> \<not> sets_ready PCIEP_WRITE_BUFFER_READY e"
        and n: "new_events this
                (snd (pciep_driver_file_write this count (Some (virt, phys)) nc irqs)) =
         [DmaAlloc count (Some (virt, phys)),
          CopyFromUser nc,
          RegWrite PCIEP_WRITE_BUFFER_ADDR (ucast phys),
          RegWrite PCIEP_WRITE_BUFFER_SIZE (ucast count),
          RegRead PCIEP_WRITE_BUFFER_READY (regs this PCIEP_WRITE_BUFFER_READY),
          RegWrite PCIEP_WRITE_BUFFER_READY (regs this PCIEP_WRITE_BUFFER_READY OR 1)]
         @ evs
         @ (if fst (pciep_driver_file_write this count (Some (virt, phys)) nc irqs) = None
            then [] else [DmaFree count (Some virt) phys])"
        by blast
      have fe: "filter is_dma evs = []"
        using q by (simp add: filter_empty_conv)
      show "filter is_dma (new_events this
          (snd (pciep_driver_file_write this count (Some (virt, phys)) nc irqs)))
        = [DmaAlloc count (Some (virt, phys)), DmaFree count (Some virt) phys]
      \<and> last (new_events this
          (snd (pciep_driver_file_write this count (Some (virt, phys)) nc irqs)))
        = DmaFree count (Some virt) phys"
        using ret by (simp add: n fe)
    qed
  qed
  have cf: "sint (ucast nc :: u32) \<noteq> 0 \<longrightarrow>
        fst (pciep_driver_file_write this count (Some (virt, phys)) nc irqs)
          = Some (sint (ucast nc :: u32))"
    using file_write_copy_failed(1) [OF assms] by blast
  show ?thesis
    by (intro conjI rd wr cf file_read_returns_when_irq_fires [OF assms]
        file_write_returns_when_irq_fires [OF assms])
qed

theorem buffer_released_exactly_once_witness:
  "\<not> (4096 :: u64) \<le> 0
   \<and> fst (pciep_driver_file_read attached_device 4096 (Some (0x1000, 0x2000)) 7
            ([WrIrq] @ [RdIrq])) = Some 7
   \<and> filter is_dma (new_events attached_device
        (snd (pciep_driver_file_read attached_device 4096 (Some (0x1000, 0x2000)) 7
                ([WrIrq] @ [RdIrq]))))
       = [DmaAlloc 4096 (Some (0x1000, 0x2000)), DmaFree 4096 (Some 0x1000) 0x2000]
   \<and> sint (ucast (7 :: u64) :: u32) \<noteq> 0
   \<and> fst (pciep_driver_file_write attached_device 4096 (Some (0x1000, 0x2000)) 7
            ([WrIrq] @ [RdIrq])) = Some 7
   \<and> filter is_dma (new_events attached_device
        (snd (pciep_driver_file_write attached_device 4096 (Some (0x1000, 0x2000)) 7
                ([WrIrq] @ [RdIrq]))))
       = [DmaAlloc 4096 (Some (0x1000, 0x2000)), DmaFree 4096 (Some 0x1000) 0x2000]"
proof -
  have h: "\<not> (4096 :: u64) \<le> 0" by simp
  have z: "sint (ucast (7 :: u64) :: u32) = 7" by simp
  show ?thesis
    using buffer_released_exactly_once
            [OF h, of attached_device "0x1000" "0x2000" 7 "[WrIrq]"]
          buffer_released_exactly_once
            [OF h, of attached_device "0x1000" "0x2000" 7 "[WrIrq] @ [RdIrq]"] h
    by (simp add: z)
qed

text \<open>
  C7: for every byte count <= 0 (the count is unsigned, so: zero), read and write return
  -EINVAL and leave the driver data, the register block and the effect log exactly as they
  were. When the count is positive and the allocation fails, they return -ENOMEM, the
  register block is unchanged and no register was read or written.
\<close>

theorem submit_rejected_without_touching_registers:
  "(count \<le> 0 \<longrightarrow>
      pciep_driver_file_read this count outcome nc irqs = (Some (- EINVAL), this)
      \<and> pciep_driver_file_write this count outcome nc irqs = (Some (- EINVAL), this))
   \<and> (\<not> count \<le> 0 \<longrightarrow>
      fst (pciep_driver_file_read this count None nc irqs) = Some (- ENOMEM)
      \<and> regs (snd (pciep_driver_file_read this count None nc irqs)) = regs this
      \<and> \<not> list_ex touches_reg
            (new_events this (snd (pciep_driver_file_read this count None nc irqs)))
      \<and> fst (pciep_driver_file_write this count None nc irqs) = Some (- ENOMEM)
      \<and> regs (snd (pciep_driver_file_write this count None nc irqs)) = regs this
      \<and> \<not> list_ex touches_reg
            (new_events this (snd (pciep_driver_file_write this count None nc irqs))))"
  by (simp add: pciep_driver_file_read_def pciep_driver_file_write_def Let_def
      dma_alloc_coherent_def log_event_def new_events_def)

theorem submit_rejected_without_touching_registers_witness:
  "(0 :: u64) \<le> 0
   \<and> pciep_driver_file_read attached_device 0 (Some (0x1000, 0x2000)) 0 [RdIrq]
       = (Some (- 22), attached_device)
   \<and> pciep_driver_file_write attached_device 0 (Some (0x1000, 0x2000)) 0 [WrIrq]
       = (Some (- 22), attached_device)
   \<and> \<not> (4096 :: u64) \<le> 0
   \<and> fst (pciep_driver_file_read attached_device 4096 None 0 [RdIrq]) = Some (- 12)
   \<and> regs (snd (pciep_driver_file_read attached_device 4096 None 0 [RdIrq]))
       = regs attached_device
   \<and> fst (pciep_driver_file_write attached_device 4096 None 0 [WrIrq]) = Some (- 12)
   \<and> regs (snd (pciep_driver_file_write attached_device 4096 None 0 [WrIrq]))
       = regs attached_device"
  using submit_rejected_without_touching_registers
          [of 0 attached_device "Some (0x1000, 0x2000)" 0 "[RdIrq]"]
        submit_rejected_without_touching_registers
          [of 0 attached_device "Some (0x1000, 0x2000)" 0 "[WrIrq]"]
        submit_rejected_without_touching_registers
          [of 4096 attached_device None 0 "[RdIrq]"]
        submit_rejected_without_touching_registers
          [of 4096 attached_device None 0 "[WrIrq]"]
  by (simp add: EINVAL_def ENOMEM_def)

subsection \<open>Completion and the ready bit\<close>

text \<open>The state in which a transfer call goes to sleep has the completion counter the
  call found, and the register block at the call's return is the one the call woke up to.\<close>

lemma file_read_sleeps_and_wakes:
  assumes "\<not> count \<le> 0"
  shows "\<exists>s5. completion_done Rd s5 = completion_done Rd this
         \<and> bit (regs s5 PCIEP_READ_BUFFER_READY) 0
         \<and> (\<forall>irqs.
               (fst (pciep_driver_file_read this count (Some (virt, phys)) nc irqs) \<noteq> None
                  \<longleftrightarrow> fst (wait_for_completion Rd irqs s5))
               \<and> regs (snd (pciep_driver_file_read this count (Some (virt, phys)) nc irqs))
                   = regs (snd (wait_for_completion Rd irqs s5)))"
proof -
  define s1 where "s1 = (dma_alloc_coherent count (Some (virt, phys)) this)
                          \<lparr>read_virt_addr := Some virt, read_phys_addr := phys\<rparr>"
  define s5 where "s5 =
    reg_write
      (snd (reg_read
             (reg_write (reg_write s1 PCIEP_READ_BUFFER_ADDR (ucast phys))
                        PCIEP_READ_BUFFER_SIZE (ucast count))
             PCIEP_READ_BUFFER_READY))
      PCIEP_READ_BUFFER_READY (regs this PCIEP_READ_BUFFER_READY OR SET_BUFFER_RDY)"
  have c: "completion_done Rd s5 = completion_done Rd this"
    by (simp add: s5_def s1_def step_defs completion_done_def)
  have b: "bit (regs s5 PCIEP_READ_BUFFER_READY) 0"
    by (simp add: s5_def s1_def step_defs SET_BUFFER_RDY_def set_bit0)
  have u: "(fst (pciep_driver_file_read this count (Some (virt, phys)) nc irqs) \<noteq> None
                  \<longleftrightarrow> fst (wait_for_completion Rd irqs s5))
               \<and> regs (snd (pciep_driver_file_read this count (Some (virt, phys)) nc irqs))
                   = regs (snd (wait_for_completion Rd irqs s5))" for irqs
    using assms
    by (cases "wait_for_completion Rd irqs s5")
       (simp add: pciep_driver_file_read_def s5_def s1_def step_defs Let_def reg_offsets
          SET_BUFFER_RDY_def split: bool.splits)
  show ?thesis using c b u by blast
qed

lemma file_write_sleeps_and_wakes:
  assumes "\<not> count \<le> 0" and "sint (ucast nc :: u32) = 0"
  shows "\<exists>s6. completion_done Wr s6 = completion_done Wr this
         \<and> bit (regs s6 PCIEP_WRITE_BUFFER_READY) 0
         \<and> (\<forall>irqs.
               (fst (pciep_driver_file_write this count (Some (virt, phys)) nc irqs) \<noteq> None
                  \<longleftrightarrow> fst (wait_for_completion Wr irqs s6))
               \<and> regs (snd (pciep_driver_file_write this count (Some (virt, phys)) nc irqs))
                   = regs (snd (wait_for_completion Wr irqs s6)))"
proof -
  define s2 where "s2 = log_event (CopyFromUser nc)
                          ((dma_alloc_coherent count (Some (virt, phys)) this)
                             \<lparr>write_virt_addr := Some virt, write_phys_addr := phys\<rparr>)"
  define s6 where "s6 =
    reg_write
      (snd (reg_read
             (reg_write (reg_write s2 PCIEP_WRITE_BUFFER_ADDR (ucast phys))
                        PCIEP_WRITE_BUFFER_SIZE (ucast count))
             PCIEP_WRITE_BUFFER_READY))
      PCIEP_WRITE_BUFFER_READY (regs this PCIEP_WRITE_BUFFER_READY OR SET_BUFFER_RDY)"
  have c: "completion_done Wr s6 = completion_done Wr this"
    by (simp add: s6_def s2_def step_defs completion_done_def)
  have b: "bit (regs s6 PCIEP_WRITE_BUFFER_READY) 0"
    by (simp add: s6_def s2_def step_defs SET_BUFFER_RDY_def set_bit0)
  have u: "(fst (pciep_driver_file_write this count (Some (virt, phys)) nc irqs) \<noteq> None
                  \<longleftrightarrow> fst (wait_for_completion Wr irqs s6))
               \<and> regs (snd (pciep_driver_file_write this count (Some (virt, phys)) nc irqs))
                   = regs (snd (wait_for_completion Wr irqs s6))" for irqs
    using assms
    by (cases "wait_for_completion Wr irqs s6")
       (simp add: pciep_driver_file_write_def s6_def s2_def step_defs Let_def reg_offsets
          SET_BUFFER_RDY_def split: bool.splits)
  show ?thesis using c b u by blast
qed

text \<open>
  C5, as the code has it. In every invocation of a per-direction completion handler the
  effects are, in this order, the read of the ready register, the write of that register
  with bit 0 cleared, the release of the direction's completion, and the read of the
  acknowledge word: the completion is released in a state whose ready register has bit 0
  clear, and what the handler does after the release leaves the register block as it is.
  So a caller that went to sleep with no completion pending (the counter was zero) and is
  woken finds bit 0 of its direction's ready register clear; in particular a read or
  write call that found the counter at zero and returns after sleeping leaves that bit
  clear, although the call itself had set it. The driver never re-arms a completion, so
  nothing is said about a caller that finds a completion left over.
\<close>

theorem ready_cleared_before_completion:
  "new_events this (xilinx_pciep_read_irq_handler this) =
     [RegRead PCIEP_READ_BUFFER_READY (regs this PCIEP_READ_BUFFER_READY),
      RegWrite PCIEP_READ_BUFFER_READY (regs this PCIEP_READ_BUFFER_READY AND NOT 1),
      Complete Rd,
      RegRead PCIRC_READ_BUFFER_TRANSFER_DONE_INTR
        (regs this PCIRC_READ_BUFFER_TRANSFER_DONE_INTR)]
   \<and> new_events this (xilinx_pciep_write_irq_handler this) =
     [RegRead PCIEP_WRITE_BUFFER_READY (regs this PCIEP_WRITE_BUFFER_READY),
      RegWrite PCIEP_WRITE_BUFFER_READY (regs this PCIEP_WRITE_BUFFER_READY AND NOT 1),
      Complete Wr,
      RegRead PCIRC_WRITE_BUFFER_TRANSFER_DONE_INTR
        (regs this PCIRC_WRITE_BUFFER_TRANSFER_DONE_INTR)]
   \<and> \<not> bit (regs this PCIEP_READ_BUFFER_READY AND NOT 1) 0
   \<and> \<not> bit (regs this PCIEP_WRITE_BUFFER_READY AND NOT 1) 0
   \<and> (\<exists>s2. xilinx_pciep_read_irq_handler this
               = snd (reg_read (complete Rd s2) PCIRC_READ_BUFFER_TRANSFER_DONE_INTR)
            \<and> \<not> bit (regs s2 PCIEP_READ_BUFFER_READY) 0
            \<and> regs (complete Rd s2) = regs s2
            \<and> regs (xilinx_pciep_read_irq_handler this) = regs s2)
   \<and> (\<exists>s2. xilinx_pciep_write_irq_handler this
               = snd (reg_read (complete Wr s2) PCIRC_WRITE_BUFFER_TRANSFER_DONE_INTR)
            \<and> \<not> bit (regs s2 PCIEP_WRITE_BUFFER_READY) 0
            \<and> regs (complete Wr s2) = regs s2
            \<and> regs (xilinx_pciep_write_irq_handler this) = regs s2)
   \<and> (completion_done Rd s = 0 \<and> fst (wait_for_completion Rd irqs s) \<longrightarrow>
        \<not> bit (regs (snd (wait_for_completion Rd irqs s)) PCIEP_READ_BUFFER_READY) 0)
   \<and> (completion_done Wr s = 0 \<and> fst (wait_for_completion Wr irqs s) \<longrightarrow>
        \<not> bit (regs (snd (wait_for_completion Wr irqs s)) PCIEP_WRITE_BUFFER_READY) 0)
   \<and> (\<not> count \<le> 0 \<and> completion_done Rd this = 0
        \<and> fst (pciep_driver_file_read this count (Some (virt, phys)) nc irqs) \<noteq> None \<longrightarrow>
        \<not> bit (regs (snd (pciep_driver_file_read this count (Some (virt, phys)) nc irqs))
                  PCIEP_READ_BUFFER_READY) 0)
   \<and> (\<not> count \<le> 0 \<and> sint (ucast nc :: u32) = 0 \<and> completion_done Wr this = 0
        \<and> fst (pciep_driver_file_write this count (Some (virt, phys)) nc irqs) \<noteq> None \<longrightarrow>
        \<not> bit (regs (snd (pciep_driver_file_write this count (Some (virt, phys)) nc irqs))
                  PCIEP_WRITE_BUFFER_READY) 0)"
proof -
  have r: "new_events this (xilinx_pciep_read_irq_handler this) =
     [RegRead PCIEP_READ_BUFFER_READY (regs this PCIEP_READ_BUFFER_READY),
      RegWrite PCIEP_READ_BUFFER_READY (regs this PCIEP_READ_BUFFER_READY AND NOT 1),
      Complete Rd,
      RegRead PCIRC_READ_BUFFER_TRANSFER_DONE_INTR
        (regs this PCIRC_READ_BUFFER_TRANSFER_DONE_INTR)]"
    by (simp add: xilinx_pciep_read_irq_handler_def step_defs Let_def SET_BUFFER_RDY_def
        new_events_def reg_offsets)
  have w: "new_events this (xilinx_pciep_write_irq_handler this) =
     [RegRead PCIEP_WRITE_BUFFER_READY (regs this PCIEP_WRITE_BUFFER_READY),
      RegWrite PCIEP_WRITE_BUFFER_READY (regs this PCIEP_WRITE_BUFFER_READY AND NOT 1),
      Complete Wr,
      RegRead PCIRC_WRITE_BUFFER_TRANSFER_DONE_INTR
        (regs this PCIRC_WRITE_BUFFER_TRANSFER_DONE_INTR)]"
    by (simp add: xilinx_pciep_write_irq_handler_def step_defs Let_def SET_BUFFER_RDY_def
        new_events_def reg_offsets)
  have c: "\<not> bit (v AND NOT 1) 0" for v :: u32
    by (simp only: clear_bit0) simp
  define r2 where "r2 = reg_write (snd (reg_read this PCIEP_READ_BUFFER_READY))
      PCIEP_READ_BUFFER_READY (regs this PCIEP_READ_BUFFER_READY AND NOT SET_BUFFER_RDY)"
  have er: "\<exists>s2. xilinx_pciep_read_irq_handler this
               = snd (reg_read (complete Rd s2) PCIRC_READ_BUFFER_TRANSFER_DONE_INTR)
            \<and> \<not> bit (regs s2 PCIEP_READ_BUFFER_READY) 0
            \<and> regs (complete Rd s2) = regs s2
            \<and> regs (xilinx_pciep_read_irq_handler this) = regs s2"
  proof (intro exI [of _ r2] conjI)
    show "xilinx_pciep_read_irq_handler this
            = snd (reg_read (complete Rd r2) PCIRC_READ_BUFFER_TRANSFER_DONE_INTR)"
      by (simp add: xilinx_pciep_read_irq_handler_def r2_def reg_read_def Let_def)
    show "\<not> bit (regs r2 PCIEP_READ_BUFFER_READY) 0"
      by (simp add: r2_def step_defs SET_BUFFER_RDY_def clear_bit0_minus2)
    show "regs (complete Rd r2) = regs r2"
      by (simp add: complete_def log_event_def)
    show "regs (xilinx_pciep_read_irq_handler this) = regs r2"
      by (simp add: xilinx_pciep_read_irq_handler_def r2_def step_defs Let_def)
  qed
  define w2 where "w2 = reg_write (snd (reg_read this PCIEP_WRITE_BUFFER_READY))
      PCIEP_WRITE_BUFFER_READY (regs this PCIEP_WRITE_BUFFER_READY AND NOT SET_BUFFER_RDY)"
  have ew: "\<exists>s2. xilinx_pciep_write_irq_handler this
               = snd (reg_read (complete Wr s2) PCIRC_WRITE_BUFFER_TRANSFER_DONE_INTR)
            \<and> \<not> bit (regs s2 PCIEP_WRITE_BUFFER_READY) 0
            \<and> regs (complete Wr s2) = regs s2
            \<and> regs (xilinx_pciep_write_irq_handler this) = regs s2"
  proof (intro exI [of _ w2] conjI)
    show "xilinx_pciep_write_irq_handler this
            = snd (reg_read (complete Wr w2) PCIRC_WRITE_BUFFER_TRANSFER_DONE_INTR)"
      by (simp add: xilinx_pciep_write_irq_handler_def w2_def reg_read_def Let_def)
    show "\<not> bit (regs w2 PCIEP_WRITE_BUFFER_READY) 0"
      by (simp add: w2_def step_defs SET_BUFFER_RDY_def clear_bit0_minus2)
    show "regs (complete Wr w2) = regs w2"
      by (simp add: complete_def log_event_def)
    show "regs (xilinx_pciep_write_irq_handler this) = regs w2"
      by (simp add: xilinx_pciep_write_irq_handler_def w2_def step_defs Let_def)
  qed
  have sr: "completion_done Rd s = 0 \<and> fst (wait_for_completion Rd irqs s) \<longrightarrow>
        \<not> bit (regs (snd (wait_for_completion Rd irqs s)) PCIEP_READ_BUFFER_READY) 0"
    using woken_reader_sees_ready_clear [of irqs s] by blast
  have sw: "completion_done Wr s = 0 \<and> fst (wait_for_completion Wr irqs s) \<longrightarrow>
        \<not> bit (regs (snd (wait_for_completion Wr irqs s)) PCIEP_WRITE_BUFFER_READY) 0"
    using woken_writer_sees_ready_clear [of irqs s] by blast
  have cr: "\<not> count \<le> 0 \<and> completion_done Rd this = 0
        \<and> fst (pciep_driver_file_read this count (Some (virt, phys)) nc irqs) \<noteq> None \<longrightarrow>
        \<not> bit (regs (snd (pciep_driver_file_read this count (Some (virt, phys)) nc irqs))
                  PCIEP_READ_BUFFER_READY) 0"
  proof
    assume a: "\<not> count \<le> 0 \<and> completion_done Rd this = 0
        \<and> fst (pciep_driver_file_read this count (Some (virt, phys)) nc irqs) \<noteq> None"
    then have pos: "\<not> count \<le> 0" by blast
    from file_read_sleeps_and_wakes [OF pos, of this virt phys nc] obtain s5 where
      c5: "completion_done Rd s5 = completion_done Rd this"
      and u5: "fst (pciep_driver_file_read this count (Some (virt, phys)) nc irqs) \<noteq> None
                  \<longleftrightarrow> fst (wait_for_completion Rd irqs s5)"
              "regs (snd (pciep_driver_file_read this count (Some (virt, phys)) nc irqs))
                   = regs (snd (wait_for_completion Rd irqs s5))"
      by blast
    have "fst (wait_for_completion Rd irqs s5)" using a u5(1) by blast
    moreover have "completion_done Rd s5 = 0" using a c5 by simp
    ultimately have nb: "\<not> bit (regs (snd (wait_for_completion Rd irqs s5))
                              PCIEP_READ_BUFFER_READY) 0"
      using woken_reader_sees_ready_clear [of irqs s5] by blast
    show "\<not> bit (regs (snd (pciep_driver_file_read this count (Some (virt, phys)) nc irqs))
                  PCIEP_READ_BUFFER_READY) 0"
      using nb u5(2) by simp
  qed
  have cw: "\<not> count \<le> 0 \<and> sint (ucast nc :: u32) = 0 \<and> completion_done Wr this = 0
        \<and> fst (pciep_driver_file_write this count (Some (virt, phys)) nc irqs) \<noteq> None \<longrightarrow>
        \<not> bit (regs (snd (pciep_driver_file_write this count (Some (virt, phys)) nc irqs))
                  PCIEP_WRITE_BUFFER_READY) 0"
  proof
    assume a: "\<not> count \<le> 0 \<and> sint (ucast nc :: u32) = 0 \<and> completion_done Wr this = 0
        \<and> fst (pciep_driver_file_write this count (Some (virt, phys)) nc irqs) \<noteq> None"
    then have pos: "\<not> count \<le> 0" and z: "sint (ucast nc :: u32) = 0" by blast+
    from file_write_sleeps_and_wakes [OF pos z, of this virt phys] obtain s6 where
      c6: "completion_done Wr s6 = completion_done Wr this"
      and u6: "fst (pciep_driver_file_write this count (Some (virt, phys)) nc irqs) \<noteq> None
                  \<longleftrightarrow> fst (wait_for_completion Wr irqs s6)"
              "regs (snd (pciep_driver_file_write this count (Some (virt, phys)) nc irqs))
                   = regs (snd (wait_for_completion Wr irqs s6))"
      by blast
    have "fst (wait_for_completion Wr irqs s6)" using a u6(1) by blast
    moreover have "completion_done Wr s6 = 0" using a c6 by simp
    ultimately have nb: "\<not> bit (regs (snd (wait_for_completion Wr irqs s6))
                              PCIEP_WRITE_BUFFER_READY) 0"
      using woken_writer_sees_ready_clear [of irqs s6] by blast
    show "\<not> bit (regs (snd (pciep_driver_file_write this count (Some (virt, phys)) nc irqs))
                  PCIEP_WRITE_BUFFER_READY) 0"
      using nb u6(2) by simp
  qed
  show ?thesis
    by (intro conjI r w c er ew sr sw cr cw)
qed

text \<open>The theorem at a device with both ready bits set and no completion pending, and
  at read and write calls of 4096 bytes on the freshly attached device that sleep through
  a write and a read interrupt.\<close>

theorem ready_cleared_before_completion_witness:
  "completion_done Rd
      (attached_device\<lparr>regs := (regs attached_device)
         (PCIEP_READ_BUFFER_READY := 0x50001, PCIEP_WRITE_BUFFER_READY := 0x70001)\<rparr>) = 0
   \<and> bit (regs (attached_device\<lparr>regs := (regs attached_device)
         (PCIEP_READ_BUFFER_READY := 0x50001, PCIEP_WRITE_BUFFER_READY := 0x70001)\<rparr>)
            PCIEP_READ_BUFFER_READY) 0
   \<and> fst (wait_for_completion Rd [WrIrq, RdIrq]
      (attached_device\<lparr>regs := (regs attached_device)
         (PCIEP_READ_BUFFER_READY := 0x50001, PCIEP_WRITE_BUFFER_READY := 0x70001)\<rparr>))
   \<and> \<not> bit (regs (snd (wait_for_completion Rd [WrIrq, RdIrq]
      (attached_device\<lparr>regs := (regs attached_device)
         (PCIEP_READ_BUFFER_READY := 0x50001, PCIEP_WRITE_BUFFER_READY := 0x70001)\<rparr>)))
              PCIEP_READ_BUFFER_READY) 0
   \<and> completion_done Wr
      (attached_device\<lparr>regs := (regs attached_device)
         (PCIEP_READ_BUFFER_READY := 0x50001, PCIEP_WRITE_BUFFER_READY := 0x70001)\<rparr>) = 0
   \<and> bit (regs (attached_device\<lparr>regs := (regs attached_device)
         (PCIEP_READ_BUFFER_READY := 0x50001, PCIEP_WRITE_BUFFER_READY := 0x70001)\<rparr>)
            PCIEP_WRITE_BUFFER_READY) 0
   \<and> fst (wait_for_completion Wr [WrIrq, RdIrq]
      (attached_device\<lparr>regs := (regs attached_device)
         (PCIEP_READ_BUFFER_READY := 0x50001, PCIEP_WRITE_BUFFER_READY := 0x70001)\<rparr>))
   \<and> \<not> bit (regs (snd (wait_for_completion Wr [WrIrq, RdIrq]
      (attached_device\<lparr>regs := (regs attached_device)
         (PCIEP_READ_BUFFER_READY := 0x50001, PCIEP_WRITE_BUFFER_READY := 0x70001)\<rparr>)))
              PCIEP_WRITE_BUFFER_READY) 0
   \<and> \<not> (4096 :: u64) \<le> 0
   \<and> sint (ucast (0 :: u64) :: u32) = 0
   \<and> completion_done Rd attached_device = 0
   \<and> completion_done Wr attached_device = 0
   \<and> fst (pciep_driver_file_read attached_device 4096 (Some (0x1000, 0x2000)) 0
            [WrIrq, RdIrq]) \<noteq> None
   \<and> \<not> bit (regs (snd (pciep_driver_file_read attached_device 4096 (Some (0x1000, 0x2000)) 0
                          [WrIrq, RdIrq])) PCIEP_READ_BUFFER_READY) 0
   \<and> fst (pciep_driver_file_write attached_device 4096 (Some (0x1000, 0x2000)) 0
            [WrIrq, RdIrq]) \<noteq> None
   \<and> \<not> bit (regs (snd (pciep_driver_file_write attached_device 4096 (Some (0x1000, 0x2000)) 0
                          [WrIrq, RdIrq])) PCIEP_WRITE_BUFFER_READY) 0"
proof -
  have h: "\<not> (4096 :: u64) \<le> 0" by simp
  have rr: "fst (pciep_driver_file_read attached_device 4096 (Some (0x1000, 0x2000)) 0
            [WrIrq, RdIrq]) \<noteq> None"
    using file_read_returns_when_irq_fires [OF h, of attached_device "0x1000" "0x2000" 0 "[WrIrq]"]
    by simp
  have ww: "fst (pciep_driver_file_write attached_device 4096 (Some (0x1000, 0x2000)) 0
            [WrIrq, RdIrq]) \<noteq> None"
    by (simp add: pciep_driver_file_write_def xilinx_pciep_read_irq_handler_def
        xilinx_pciep_write_irq_handler_def step_defs Let_def SET_BUFFER_RDY_def
        completion_done_def take_completion_def attached_device_def zero_block_def reg_offsets)
  have d: "completion_done Rd attached_device = 0" "completion_done Wr attached_device = 0"
    by (simp_all add: completion_done_def attached_device_def)
  show ?thesis
    using ready_cleared_before_completion
            [where this = attached_device and irqs = "[WrIrq, RdIrq]"
               and count = 4096 and virt = "0x1000" and phys = "0x2000" and nc = 0
               and s = "attached_device\<lparr>regs := (regs attached_device)
                  (PCIEP_READ_BUFFER_READY := 0x50001, PCIEP_WRITE_BUFFER_READY := 0x70001)\<rparr>"]
          rr ww d
    by (simp add: xilinx_pciep_read_irq_handler_def xilinx_pciep_write_irq_handler_def
        step_defs Let_def SET_BUFFER_RDY_def completion_done_def take_completion_def
        attached_device_def zero_block_def reg_offsets)
qed

text \<open>
  C5, as stated, fails: the waiter's guarantee does not hold for every caller that the
  completion lets through. On the freshly attached device, let the read interrupt fire
  once while no read is in progress; its handler releases the read completion. A read
  call of 4096 bytes that follows sets bit 0 of the read-ready register, finds the
  completion already released, does not sleep (no further interrupt fires) and returns 0
  with bit 0 of the read-ready register still set.
\<close>

theorem leftover_completion_returns_with_ready_set:
  "completion_done Rd (xilinx_pciep_read_irq_handler attached_device) = 1
   \<and> fst (pciep_driver_file_read (xilinx_pciep_read_irq_handler attached_device)
            4096 (Some (0x1000, 0x2000)) 0 []) = Some 0
   \<and> bit (regs (snd (pciep_driver_file_read (xilinx_pciep_read_irq_handler attached_device)
                       4096 (Some (0x1000, 0x2000)) 0 [])) PCIEP_READ_BUFFER_READY) 0"
  by (simp add: pciep_driver_file_read_def xilinx_pciep_read_irq_handler_def step_defs
      Let_def SET_BUFFER_RDY_def completion_done_def take_completion_def
      attached_device_def zero_block_def reg_offsets)

end
